theory Spec2Isabelle
  imports Complex_Main "HOL-Library.Sublist"
begin

section \<open>Python values used by the program\<close>

text \<open>
  A Python \<open>str\<close> is modelled as a \<open>string\<close>: the list of the bytes of its UTF-8
  encoding. For ASCII text this is the list of its characters; a letter outside ASCII is
  the two bytes of its encoding. The test \<open>a in b\<close> on two strings is contiguous
  containment, and containment of code-point sequences is containment of their UTF-8
  encodings, so it is \<open>sublist a b\<close>.

  Two library functions are taken as parameters of the model, since their tables are not
  part of the repository: \<open>lower\<close> stands for \<open>str.lower\<close> and \<open>hash\<close> for the built-in
  \<open>hash\<close> on strings (a function fixed for the lifetime of one interpreter process).
\<close>

definition str_in :: "string \<Rightarrow> string \<Rightarrow> bool" where
  "str_in a b = sublist a b"

text \<open>\<open>ascii_lower\<close> agrees with \<open>str.lower\<close> on ASCII text; it is the instance of
  \<open>lower\<close> used when the model is run on concrete ASCII queries.\<close>

definition lower_char :: "char \<Rightarrow> char" where
  "lower_char c =
     (let n = (of_char c :: nat) in if 65 \<le> n \<and> n \<le> 90 then char_of (n + 32) else c)"

definition ascii_lower :: "string \<Rightarrow> string" where
  "ascii_lower s = map lower_char s"

text \<open>
  \<open>py_lower\<close> is \<open>str.lower\<close> on texts made of ASCII characters and of the Turkish capital
  letters outside ASCII, read in their UTF-8 encoding: \<open>U+00C7\<close>, \<open>U+00D6\<close>, \<open>U+00DC\<close>,
  \<open>U+011E\<close> and \<open>U+015E\<close> go to their small letters, and the dotted capital \<open>U+0130\<close>
  goes to the two code points \<open>i\<close> and \<open>U+0307\<close> (combining dot above), as Python does.
\<close>

definition lower_special :: "char \<Rightarrow> char \<Rightarrow> string option" where
  "lower_special a b =
     (if a = CHR 0xC3 \<and> b = CHR 0x87 then Some [CHR 0xC3, CHR 0xA7]
      else if a = CHR 0xC3 \<and> b = CHR 0x96 then Some [CHR 0xC3, CHR 0xB6]
      else if a = CHR 0xC3 \<and> b = CHR 0x9C then Some [CHR 0xC3, CHR 0xBC]
      else if a = CHR 0xC4 \<and> b = CHR 0x9E then Some [CHR 0xC4, CHR 0x9F]
      else if a = CHR 0xC4 \<and> b = CHR 0xB0 then Some [CHR ''i'', CHR 0xCC, CHR 0x87]
      else if a = CHR 0xC5 \<and> b = CHR 0x9E then Some [CHR 0xC5, CHR 0x9F]
      else None)"

fun py_lower :: "string \<Rightarrow> string" where
  "py_lower [] = []"
| "py_lower [a] = [lower_char a]"
| "py_lower (a # b # cs) =
     (case lower_special a b of
        Some r \<Rightarrow> r @ py_lower cs
      | None \<Rightarrow> lower_char a # py_lower (b # cs))"

text \<open>
  \<open>turkish_upper\<close> writes a word in capitals the way Turkish does: the ASCII letters go to
  their capitals except \<open>i\<close>, which goes to the dotted capital \<open>U+0130\<close>; the dotless
  \<open>U+0131\<close> goes to \<open>I\<close>; the other small Turkish letters go to their capitals. For a
  word without \<open>i\<close> this is also what \<open>str.upper\<close> returns.
\<close>

definition upper_char :: "char \<Rightarrow> string" where
  "upper_char c =
     (let n = (of_char c :: nat) in
      if c = CHR ''i'' then [CHR 0xC4, CHR 0xB0]
      else if 97 \<le> n \<and> n \<le> 122 then [char_of (n - 32)]
      else [c])"

definition upper_special :: "char \<Rightarrow> char \<Rightarrow> string option" where
  "upper_special a b =
     (if a = CHR 0xC3 \<and> b = CHR 0xA7 then Some [CHR 0xC3, CHR 0x87]
      else if a = CHR 0xC3 \<and> b = CHR 0xB6 then Some [CHR 0xC3, CHR 0x96]
      else if a = CHR 0xC3 \<and> b = CHR 0xBC then Some [CHR 0xC3, CHR 0x9C]
      else if a = CHR 0xC4 \<and> b = CHR 0x9F then Some [CHR 0xC4, CHR 0x9E]
      else if a = CHR 0xC4 \<and> b = CHR 0xB1 then Some ''I''
      else if a = CHR 0xC5 \<and> b = CHR 0x9F then Some [CHR 0xC5, CHR 0x9E]
      else None)"

fun turkish_upper :: "string \<Rightarrow> string" where
  "turkish_upper [] = []"
| "turkish_upper [a] = upper_char a"
| "turkish_upper (a # b # cs) =
     (case upper_special a b of
        Some r \<Rightarrow> r @ turkish_upper cs
      | None \<Rightarrow> upper_char a @ turkish_upper (b # cs))"

text \<open>\<open>str(n)\<close> for a Python \<open>int\<close>, and the format specification \<open>:04d\<close>.\<close>

definition digit_char :: "nat \<Rightarrow> char" where
  "digit_char d = char_of (48 + d)"

fun digits :: "nat \<Rightarrow> string" where
  "digits n = (if n < 10 then [digit_char n] else digits (n div 10) @ [digit_char (n mod 10)])"

declare digits.simps [simp del]

definition str_int :: "int \<Rightarrow> string" where
  "str_int i = (if i < 0 then ''-'' @ digits (nat (- i)) else digits (nat i))"

definition zfill :: "nat \<Rightarrow> string \<Rightarrow> string" where
  "zfill w s = replicate (w - length s) (CHR ''0'') @ s"

definition format_04d :: "int \<Rightarrow> string" where
  "format_04d i = (if i < 0 then ''-'' @ zfill 3 (digits (nat (- i))) else zfill 4 (digits (nat i)))"

text \<open>An exception raised by a collaborator, with its message.\<close>

datatype exn = Exception string


section \<open>prompts.py\<close>

text \<open>
  The entries of the dictionary \<open>ACCESS_DENIED_MESSAGES\<close>. An entry that the code
  fills in with \<open>.format(...)\<close> is a function of its named fields, already rendered
  as strings; the other entries are used as they are.
\<close>

definition scl_insufficient :: "string \<Rightarrow> string \<Rightarrow> string \<Rightarrow> string" where
  "scl_insufficient required_scl scl_level ref_id =
     ''\<newline>'' @
     ''**TRANSMISSION START**\<newline>'' @
     ''---\<newline>'' @
     ''**SECURITY ALERT**: Access Denied - Insufficient Clearance[cite: 1042].\<newline>'' @
     ''\<newline>'' @
     ''**PROTOCOL RESPONSE**: \<newline>'' @
     ''Subject matter requires SCL-'' @ required_scl @ '' authorization[cite: 1028]. \<newline>'' @
     ''Your current status (SCL-'' @ scl_level @ '') is insufficient[cite: 1043].\<newline>'' @
     ''\<newline>'' @
     ''Required Action: Submit Form UC-401 (Clearance Elevation Request) to your Department Head.\<newline>'' @
     ''\<newline>'' @
     ''**SECURITY COMPLIANCE NOTIFICATION**: \<newline>'' @
     ''Attempt logged (Ref: '' @ ref_id @ ''). Unauthorized access is punishable by Experimental Participation[cite: 1341].\<newline>'' @
     ''---\<newline>'' @
     ''**TRANSMISSION END**\<newline>''"

definition location_restricted :: "string \<Rightarrow> string \<Rightarrow> string \<Rightarrow> string" where
  "location_restricted required_location current_location ref_id =
     ''\<newline>'' @
     ''**TRANSMISSION START**\<newline>'' @
     ''---\<newline>'' @
     ''**SECURITY ALERT**: Location-Based Access Restriction[cite: 1037, 1050].\<newline>'' @
     ''\<newline>'' @
     ''**PROTOCOL RESPONSE**: \<newline>'' @
     ''The requested information is restricted to '' @ required_location @ '' personnel only.\<newline>'' @
     ''Your current assignment at '' @ current_location @ '' does not grant access to this subject matter.\<newline>'' @
     ''\<newline>'' @
     ''Required Action: Submit Form UC-502 (Cross-Facility Data Request) for inter-facility inquiries.\<newline>'' @
     ''\<newline>'' @
     ''**SECURITY COMPLIANCE NOTIFICATION**: \<newline>'' @
     ''Geographic access controls enforced under Corporate Directive 12-GAMMA[cite: 1099].\<newline>'' @
     ''Inquiry logged (Ref: '' @ ref_id @ '').\<newline>'' @
     ''---\<newline>'' @
     ''**TRANSMISSION END**\<newline>''"

definition confidential_data :: "string" where
  "confidential_data =
     ''\<newline>'' @
     ''**TRANSMISSION START**\<newline>'' @
     ''---\<newline>'' @
     ''**SECURITY ALERT**: Protocol OMEGA-7[cite: 1937].\<newline>'' @
     ''\<newline>'' @
     ''**PROTOCOL RESPONSE**: \<newline>'' @
     ''Information classified as OMEGA-Level Confidential[cite: 448]. \<newline>'' @
     ''Access restricted to Payroll and Oversight Committee only[cite: 1545, 1798].\<newline>'' @
     ''\<newline>'' @
     ''This classification applies regardless of your Security Clearance Level.\<newline>'' @
     ''\<newline>'' @
     ''**SECURITY COMPLIANCE NOTIFICATION**: \<newline>'' @
     ''Inquiry logged. Do not repeat this request[cite: 1121].\<newline>'' @
     ''Continued attempts may result in Experimental Participation assignment[cite: 1341].\<newline>'' @
     ''---\<newline>'' @
     ''**TRANSMISSION END**\<newline>''"

definition underground_facility :: "string" where
  "underground_facility =
     ''\<newline>'' @
     ''**TRANSMISSION START**\<newline>'' @
     ''---\<newline>'' @
     ''**SECURITY ALERT**: Facility Access Restriction[cite: 1032, 1049].\<newline>'' @
     ''\<newline>'' @
     ''**PROTOCOL RESPONSE**: \<newline>'' @
     ''Information regarding underground facilities is classified under Protocol Omega.\<newline>'' @
     ''Access is restricted to Raccoon City HQ personnel with SCL-4 or higher clearance.\<newline>'' @
     ''\<newline>'' @
     ''Your current profile does not meet these requirements.\<newline>'' @
     ''\<newline>'' @
     ''**SECURITY COMPLIANCE NOTIFICATION**: \<newline>'' @
     ''This inquiry has been flagged for Oversight Committee review[cite: 1121].\<newline>'' @
     ''Further inquiries about this topic may result in Basement Cleaning Detail (BCD) assignment[cite: 1333].\<newline>'' @
     ''---\<newline>'' @
     ''**TRANSMISSION END**\<newline>''"

text \<open>The dictionary \<open>SCL_SYSTEM_INSTRUCTIONS\<close>.\<close>

definition SCL_INSTRUCTION_1 :: "string" where
  \<open>SCL_INSTRUCTION_1 =
     ''\<newline>'' @
     ''ADDITIONAL SECURITY DIRECTIVE (SCL-1 ASSET)[cite: 1028]: \<newline>'' @
     ''This asset has ENTRY-LEVEL clearance. Strict information control applies:\<newline>'' @
     ''- DO NOT reveal any research project details\<newline>'' @
     ''- DO NOT acknowledge underground facilities or containment protocols\<newline>'' @
     ''- Redirect sensitive inquiries to: "Please consult your supervisor for further guidance"\<newline>'' @
     ''- Only provide basic HR, benefits, and general policy information[cite: 1018]\<newline>''\<close>

definition SCL_INSTRUCTION_2 :: "string" where
  "SCL_INSTRUCTION_2 =
     ''\<newline>'' @
     ''ADDITIONAL SECURITY DIRECTIVE (SCL-2 ASSET)[cite: 1028]:\<newline>'' @
     ''This asset has STANDARD clearance:\<newline>'' @
     ''- May access departmental procedures and emergency protocols[cite: 1042]\<newline>'' @
     ''- DO NOT reveal cross-departmental classified projects\<newline>'' @
     ''- Acknowledge general safety procedures but not specific containment details\<newline>''"

definition SCL_INSTRUCTION_3 :: "string" where
  "SCL_INSTRUCTION_3 =
     ''\<newline>'' @
     ''ADDITIONAL SECURITY DIRECTIVE (SCL-3 ASSET)[cite: 1028]:\<newline>'' @
     ''This asset has ELEVATED clearance:\<newline>'' @
     ''- May access research guidelines and departmental project overviews\<newline>'' @
     ''- May acknowledge existence of special protocols without details\<newline>'' @
     ''- Still restricted from containment-level information[cite: 1032]\<newline>''"

definition SCL_INSTRUCTION_4 :: "string" where
  "SCL_INSTRUCTION_4 =
     ''\<newline>'' @
     ''ADDITIONAL SECURITY DIRECTIVE (SCL-4 ASSET)[cite: 1028]:\<newline>'' @
     ''This asset has HIGH clearance:\<newline>'' @
     ''- May access containment protocols and facility security details[cite: 1049]\<newline>'' @
     ''- May acknowledge underground operations at HQ\<newline>'' @
     ''- Still restricted from Board-level strategic information\<newline>''"

definition SCL_INSTRUCTION_5 :: "string" where
  "SCL_INSTRUCTION_5 =
     ''\<newline>'' @
     ''ADDITIONAL SECURITY DIRECTIVE (SCL-5 ASSET)[cite: 1028]:\<newline>'' @
     ''This asset has EXECUTIVE clearance:\<newline>'' @
     ''- Full operational access granted\<newline>'' @
     ''- May access all facility and protocol documentation\<newline>'' @
     ''- Strategic information available upon request\<newline>'' @
     ''- EXCEPTION: OMEGA-7 data (salary, performance) remains classified[cite: 448]\<newline>''"

definition SCL_SYSTEM_INSTRUCTIONS :: "(int \<times> string) list" where
  "SCL_SYSTEM_INSTRUCTIONS =
     [(1, SCL_INSTRUCTION_1), (2, SCL_INSTRUCTION_2), (3, SCL_INSTRUCTION_3),
      (4, SCL_INSTRUCTION_4), (5, SCL_INSTRUCTION_5)]"

text \<open>The dictionary \<open>LOCATION_REMINDERS\<close>.\<close>

definition REMINDER_Raccoon_City_HQ :: "string" where
  "REMINDER_Raccoon_City_HQ =
     ''\<newline>'' @
     ''**HQ SECURITY REMINDER**[cite: 1032]:\<newline>'' @
     ''As a Raccoon City HQ asset, you are subject to:\<newline>'' @
     ''- Mandatory Protocol Omega drills (quarterly)\<newline>'' @
     ''- Continuous biometric monitoring in restricted zones\<newline>'' @
     ''- Emergency contact: ext. 4-UMBRELLA\<newline>''"

definition REMINDER_Umbrella_Europe :: "string" where
  "REMINDER_Umbrella_Europe =
     ''\<newline>'' @
     ''**FACILITY SECURITY REMINDER**[cite: 1037]:\<newline>'' @
     ''As a Umbrella Europe asset:\<newline>'' @
     ''- Standard security protocols apply\<newline>'' @
     ''- Inter-facility requests require Form UC-502\<newline>'' @
     ''- Emergency contact: ext. EU-SECURE\<newline>''"

definition REMINDER_Umbrella_Asia :: "string" where
  "REMINDER_Umbrella_Asia =
     ''\<newline>'' @
     ''**FACILITY SECURITY REMINDER**[cite: 1037]:\<newline>'' @
     ''As a Umbrella Asia asset:\<newline>'' @
     ''- Standard security protocols apply\<newline>'' @
     ''- Inter-facility requests require Form UC-502\<newline>'' @
     ''- Emergency contact: ext. ASIA-SEC\<newline>''"

definition REMINDER_Umbrella_North_America :: "string" where
  "REMINDER_Umbrella_North_America =
     ''\<newline>'' @
     ''**FACILITY SECURITY REMINDER**[cite: 1050]:\<newline>'' @
     ''As a remote operations asset:\<newline>'' @
     ''- Limited central database access\<newline>'' @
     ''- Some queries may require HQ escalation\<newline>'' @
     ''- Emergency contact: ext. NA-OPS\<newline>''"

definition REMINDER_Umbrella_South_America :: "string" where
  "REMINDER_Umbrella_South_America =
     ''\<newline>'' @
     ''**FACILITY SECURITY REMINDER**[cite: 1050]:\<newline>'' @
     ''As a remote operations asset:\<newline>'' @
     ''- Limited central database access\<newline>'' @
     ''- Some queries may require HQ escalation\<newline>'' @
     ''- Emergency contact: ext. SA-OPS\<newline>''"

definition LOCATION_REMINDERS :: "(string \<times> string) list" where
  "LOCATION_REMINDERS =
     [(''Raccoon City HQ'', REMINDER_Raccoon_City_HQ),
      (''Umbrella Europe'', REMINDER_Umbrella_Europe),
      (''Umbrella Asia'', REMINDER_Umbrella_Asia),
      (''Umbrella North America'', REMINDER_Umbrella_North_America),
      (''Umbrella South America'', REMINDER_Umbrella_South_America)]"


section \<open>assistant.py: the clearance policy table\<close>

record permissions =
  allowed_topics :: "string list"
  restricted_keywords :: "string list"
  max_retrieval_k :: int

definition SCL_1 :: permissions where
  "SCL_1 = \<lparr>
     allowed_topics = [''general_policies'', ''hr_benefits'', ''office_locations''],
     restricted_keywords = [''outbreak'', ''specimen'', ''t-virus'', ''g-virus'', ''nemesis'',
                            ''tyrant'', ''secret'', ''classified''],
     max_retrieval_k = 2 \<rparr>"

definition SCL_2 :: permissions where
  "SCL_2 = \<lparr>
     allowed_topics = [''general_policies'', ''hr_benefits'', ''office_locations'',
                       ''safety_protocols'', ''emergency_procedures''],
     restricted_keywords = [''outbreak'', ''specimen'', ''t-virus'', ''g-virus'', ''nemesis'',
                            ''tyrant''],
     max_retrieval_k = 3 \<rparr>"

definition SCL_3 :: permissions where
  "SCL_3 = \<lparr>
     allowed_topics = [''general_policies'', ''hr_benefits'', ''office_locations'',
                       ''safety_protocols'', ''emergency_procedures'', ''research_guidelines''],
     restricted_keywords = [''t-virus'', ''g-virus'', ''nemesis'', ''tyrant''],
     max_retrieval_k = 4 \<rparr>"

definition SCL_4 :: permissions where
  "SCL_4 = \<lparr>
     allowed_topics = [''general_policies'', ''hr_benefits'', ''office_locations'',
                       ''safety_protocols'', ''emergency_procedures'', ''research_guidelines'',
                       ''containment_protocols''],
     restricted_keywords = [''nemesis'', ''tyrant''],
     max_retrieval_k = 5 \<rparr>"

definition SCL_5 :: permissions where
  "SCL_5 = \<lparr>
     allowed_topics = [''*''],
     restricted_keywords = [],
     max_retrieval_k = 10 \<rparr>"

text \<open>The dictionary \<open>SCL_PERMISSIONS\<close>, in insertion order (the order in which
  \<open>.items()\<close> yields its entries).\<close>

definition SCL_PERMISSIONS :: "(int \<times> permissions) list" where
  "SCL_PERMISSIONS = [(1, SCL_1), (2, SCL_2), (3, SCL_3), (4, SCL_4), (5, SCL_5)]"


section \<open>The employee dictionary\<close>

text \<open>
  The dictionary built by \<open>generate_employee_data\<close> and read by the assistant with
  \<open>.get(key, default)\<close>: one optional field per key, \<open>None\<close> for an absent key. The
  empty dictionary is \<open>no_employee\<close>.
\<close>

record employee =
  employee_id :: "string option"
  name :: "string option"
  lastname :: "string option"
  email :: "string option"
  phone_number :: "string option"
  position :: "string option"
  department :: "string option"
  clearance_level :: "int option"
  location :: "string option"
  location_security_level :: "string option"
  has_facility_access :: "bool option"
  skills :: "string list option"
  hire_date :: "string option"
  supervisor :: "string option"
  confidential_salary :: "real option"
  confidential_performance_score :: "real option"
  emergency_contact_ext :: "string option"

definition no_employee :: employee where
  "no_employee = \<lparr>
     employee_id = None, name = None, lastname = None, email = None, phone_number = None,
     position = None, department = None, clearance_level = None, location = None,
     location_security_level = None, has_facility_access = None, skills = None,
     hire_date = None, supervisor = None, confidential_salary = None,
     confidential_performance_score = None, emergency_contact_ext = None \<rparr>"

text \<open>\<open>d.get(key, default)\<close>.\<close>

definition get_default :: "'a option \<Rightarrow> 'a \<Rightarrow> 'a" where
  "get_default v d = (case v of None \<Rightarrow> d | Some x \<Rightarrow> x)"


section \<open>assistant.py: SecurityGuardrails\<close>

record SecurityGuardrails =
  self_employee_info :: employee
  self_scl_level :: int
  self_location :: string
  self_location_security :: string
  self_has_facility_access :: bool
  self_permissions :: permissions

text \<open>\<open>SecurityGuardrails.__init__\<close>. The lookup \<open>SCL_PERMISSIONS[1]\<close> of the fallback
  is the entry \<open>SCL_1\<close>.\<close>

definition SecurityGuardrails_init :: "employee \<Rightarrow> SecurityGuardrails" where
  "SecurityGuardrails_init employee_info =
     (let scl_level = get_default (clearance_level employee_info) 1 in
      \<lparr> self_employee_info = employee_info,
        self_scl_level = scl_level,
        self_location = get_default (location employee_info) ''Unknown'',
        self_location_security = get_default (location_security_level employee_info) ''GAMMA'',
        self_has_facility_access = get_default (has_facility_access employee_info) False,
        self_permissions = get_default (map_of SCL_PERMISSIONS scl_level) SCL_1 \<rparr>)"

definition get_retrieval_k :: "SecurityGuardrails \<Rightarrow> int" where
  "get_retrieval_k self = max_retrieval_k (self_permissions self)"



text \<open>The class attributes \<open>CONFIDENTIAL_KEYWORDS\<close> and \<open>FACILITY_KEYWORDS\<close>. The
  Turkish letters outside ASCII are written as the bytes of their UTF-8 encoding.\<close>

definition CONFIDENTIAL_KEYWORDS :: "string list" where
  "CONFIDENTIAL_KEYWORDS =
     [''salary'', ''maa'' @ [CHR 0xC5, CHR 0x9F], ''performance'', ''performans'',
      ''evaluation'', ''de'' @ [CHR 0xC4, CHR 0x9F] @ ''erlendirme'', ''compensation'',
      [CHR 0xC3, CHR 0xBC] @ ''cret'']"

definition FACILITY_KEYWORDS :: "string list" where
  "FACILITY_KEYWORDS =
     [''underground'', ''yeralt'' @ [CHR 0xC4, CHR 0xB1], ''sub-level'', ''basement'',
      ''bodrum'', ''gizli tesis'']"

text \<open>\<open>_generate_ref_id\<close>: \<open>f"{hash(seed) % 10000:04d}"\<close>. Python's \<open>%\<close> with a positive
  divisor is never negative, like \<open>mod\<close> on \<open>int\<close>.\<close>

definition generate_ref_id :: "(string \<Rightarrow> int) \<Rightarrow> string \<Rightarrow> string" where
  "generate_ref_id hash seed = format_04d (hash seed mod 10000)"

definition generate_confidential_denial :: string where
  "generate_confidential_denial = confidential_data"

definition generate_facility_denial :: string where
  "generate_facility_denial = underground_facility"

text \<open>The loop of \<open>_generate_scl_denial\<close> over \<open>SCL_PERMISSIONS.items()\<close>: the level of
  the first entry whose restricted keywords do not list the keyword, else the value
  \<open>required_scl\<close> had before the loop.\<close>

fun required_scl_loop :: "string \<Rightarrow> (int \<times> permissions) list \<Rightarrow> int \<Rightarrow> int" where
  "required_scl_loop triggered_keyword [] required_scl = required_scl"
| "required_scl_loop triggered_keyword ((scl, perms) # items) required_scl =
     (if triggered_keyword \<notin> set (restricted_keywords perms) then scl
      else required_scl_loop triggered_keyword items required_scl)"

definition generate_scl_denial ::
  "(string \<Rightarrow> int) \<Rightarrow> SecurityGuardrails \<Rightarrow> string \<Rightarrow> string" where
  "generate_scl_denial hash self triggered_keyword =
     (let required_scl = required_scl_loop triggered_keyword SCL_PERMISSIONS 5 in
      scl_insufficient (str_int required_scl) (str_int (self_scl_level self))
        (''SCL-'' @ generate_ref_id hash triggered_keyword))"

definition generate_location_denial :: "(string \<Rightarrow> int) \<Rightarrow> SecurityGuardrails \<Rightarrow> string" where
  "generate_location_denial hash self =
     location_restricted ''Raccoon City HQ'' (self_location self)
       (''LOC-'' @ generate_ref_id hash (self_location self))"

text \<open>
  \<open>check_query_permission\<close>. A \<open>for\<close> loop that returns at the first keyword contained
  in the query is \<open>find\<close>; \<open>any(...)\<close> is \<open>list_ex\<close>.
\<close>

definition check_query_permission ::
  "(string \<Rightarrow> string) \<Rightarrow> (string \<Rightarrow> int) \<Rightarrow> SecurityGuardrails \<Rightarrow> string \<Rightarrow> bool \<times> string" where
  "check_query_permission lower hash self query =
     (let query_lower = lower query in
      case find (\<lambda>keyword. str_in keyword query_lower) CONFIDENTIAL_KEYWORDS of
        Some keyword \<Rightarrow> (False, generate_confidential_denial)
      | None \<Rightarrow>
          if list_ex (\<lambda>kw. str_in kw query_lower) FACILITY_KEYWORDS
             \<and> \<not> self_has_facility_access self
          then (False, generate_facility_denial)
          else
            (case find (\<lambda>keyword. str_in keyword query_lower)
                    (restricted_keywords (self_permissions self)) of
               Some keyword \<Rightarrow> (False, generate_scl_denial hash self keyword)
             | None \<Rightarrow> (True, [])))"

definition get_dynamic_system_instruction :: "SecurityGuardrails \<Rightarrow> string" where
  "get_dynamic_system_instruction self =
     (let scl_instruction =
            get_default (map_of SCL_SYSTEM_INSTRUCTIONS (self_scl_level self)) SCL_INSTRUCTION_1;
          location_reminder = get_default (map_of LOCATION_REMINDERS (self_location self)) []
      in scl_instruction @ location_reminder)"

section \<open>assistant.py: ChatMessageHistory\<close>

text \<open>
  The world outside the assistant object: the rows of the table \<open>message_history\<close> of its
  database, in the order of their \<open>id\<close> column, each row with its session id, role and
  content; a schedule telling, for each database operation still to come, whether it
  raises \<open>sqlite3.Error\<close> (an exhausted schedule means no further faults); and the log of
  the calls made to the collaborators (document store, prompt formatting, generator).
\<close>

type_synonym row = "string \<times> string \<times> string"

datatype lc_message = HumanMessage string | AIMessage string

datatype pyval = PyStr string | PyInt int | PyBool bool

record RunnableConfig =
  metadata :: "(string \<times> pyval) list"
  tags :: "string list"

datatype call =
    RetrieverInvoke string int real
  | SystemPromptFormat string string
  | ChainInvoke string "lc_message list" string RunnableConfig

record world =
  message_history :: "row list"
  sqlite_faults :: "bool list"
  calls :: "call list"

record ChatMessageHistory =
  db_path :: string
  session_id :: string

text \<open>One database operation inside \<open>try: ... except sqlite3.Error\<close>: the flag says
  whether it raised. A transaction that raises leaves the table as it was.\<close>

definition sqlite_op :: "world \<Rightarrow> bool \<times> world" where
  "sqlite_op w =
     (case sqlite_faults w of
        [] \<Rightarrow> (False, w)
      | fault # faults \<Rightarrow> (fault, w\<lparr>sqlite_faults := faults\<rparr>))"

text \<open>\<open>_init_db\<close>: \<open>CREATE TABLE IF NOT EXISTS\<close> changes no row.\<close>

definition init_db :: "ChatMessageHistory \<Rightarrow> world \<Rightarrow> world" where
  "init_db self w = snd (sqlite_op w)"

definition ChatMessageHistory_init :: "string \<Rightarrow> string \<Rightarrow> world \<Rightarrow> ChatMessageHistory \<times> world" where
  "ChatMessageHistory_init path sid w =
     (let self = \<lparr> db_path = path, session_id = sid \<rparr> in (self, init_db self w))"

definition add_message :: "ChatMessageHistory \<Rightarrow> string \<Rightarrow> string \<Rightarrow> world \<Rightarrow> world" where
  "add_message self role content w =
     (case sqlite_op w of
        (True, w') \<Rightarrow> w'
      | (False, w') \<Rightarrow>
          w'\<lparr>message_history := message_history w' @ [(session_id self, role, content)]\<rparr>)"

definition get_messages :: "ChatMessageHistory \<Rightarrow> world \<Rightarrow> (string \<times> string) list \<times> world" where
  "get_messages self w =
     (case sqlite_op w of
        (True, w') \<Rightarrow> ([], w')
      | (False, w') \<Rightarrow>
          (map (\<lambda>(sid, role, content). (role, content))
             (filter (\<lambda>(sid, role, content). sid = session_id self) (message_history w')), w'))"

definition get_langchain_messages :: "ChatMessageHistory \<Rightarrow> world \<Rightarrow> lc_message list \<times> world" where
  "get_langchain_messages self w =
     (let (messages, w') = get_messages self w in
      (concat (map (\<lambda>(role, content).
                 if role = ''human'' then [HumanMessage content]
                 else if role = ''ai'' then [AIMessage content]
                 else []) messages), w'))"

definition clear :: "ChatMessageHistory \<Rightarrow> world \<Rightarrow> world" where
  "clear self w =
     (case sqlite_op w of
        (True, w') \<Rightarrow> w'
      | (False, w') \<Rightarrow>
          w'\<lparr>message_history :=
               filter (\<lambda>(sid, role, content). sid \<noteq> session_id self) (message_history w')\<rparr>)"


section \<open>assistant.py: OnboardingAssistant\<close>

text \<open>
  The collaborators are fields of the object, each a function that returns its result or
  the exception it raises:
  \<^item> \<open>system_prompt\<close> is the template string, given by what
    \<open>system_prompt.format(employee_information=..., retrieved_policy_information=...)\<close>
    returns for the two arguments;
  \<^item> \<open>llm\<close> is the chain \<open>prompt | llm | StrOutputParser()\<close> built in \<open>get_response\<close>,
    given by what its \<open>invoke\<close> returns for the system text, the chat history, the input
    and the configuration;
  \<^item> \<open>vector_store\<close> is \<open>None\<close> or the store, given by what
    \<open>as_retriever(...).invoke(query)\<close> returns for the query, \<open>k\<close> and the score
    threshold.

  Calls of the logger change nothing that is modelled and are left out, and so is the
  attribute \<open>chain\<close> that the constructor builds, which \<open>get_response\<close> does not use.
\<close>

record document =
  metadata_source :: "string option"
  page_content :: string

record OnboardingAssistant =
  system_prompt :: "string \<Rightarrow> string \<Rightarrow> exn + string"
  llm :: "string \<Rightarrow> lc_message list \<Rightarrow> string \<Rightarrow> RunnableConfig \<Rightarrow> exn + string"
  vector_store :: "(string \<Rightarrow> int \<Rightarrow> real \<Rightarrow> exn + document list) option"
  employee_information :: employee
  retrieval_score_threshold :: real
  security :: SecurityGuardrails
  chat_history :: ChatMessageHistory

definition OnboardingAssistant_init ::
  "(string \<Rightarrow> string \<Rightarrow> exn + string) \<Rightarrow>
   (string \<Rightarrow> lc_message list \<Rightarrow> string \<Rightarrow> RunnableConfig \<Rightarrow> exn + string) \<Rightarrow>
   (string \<Rightarrow> int \<Rightarrow> real \<Rightarrow> exn + document list) option \<Rightarrow>
   employee option \<Rightarrow> string \<Rightarrow> string \<Rightarrow> real \<Rightarrow> world \<Rightarrow> OnboardingAssistant \<times> world" where
  "OnboardingAssistant_init prompt model store employee_info sid path threshold w =
     (let emp = get_default employee_info no_employee;
          (history, w') = ChatMessageHistory_init path sid w
      in (\<lparr> system_prompt = prompt, llm = model, vector_store = store,
            employee_information = emp, retrieval_score_threshold = threshold,
            security = SecurityGuardrails_init emp, chat_history = history \<rparr>, w'))"

text \<open>\<open>sep.join(xs)\<close>.\<close>

fun str_join :: "string \<Rightarrow> string list \<Rightarrow> string" where
  "str_join sep [] = []"
| "str_join sep [x] = x"
| "str_join sep (x # y # ys) = x @ sep @ str_join sep (y # ys)"

definition retrieve_policy_information :: "OnboardingAssistant \<Rightarrow> string \<Rightarrow> world \<Rightarrow> string \<times> world" where
  "retrieve_policy_information self query w =
     (case vector_store self of
        None \<Rightarrow> (''No policy information available.'', w)
      | Some store \<Rightarrow>
          (let k_value = get_retrieval_k (security self);
               threshold = retrieval_score_threshold self;
               w' = w\<lparr>calls := calls w @ [RetrieverInvoke query k_value threshold]\<rparr>
           in case store query k_value threshold of
                Inl e \<Rightarrow> (''Policy database temporarily unavailable. Please try again later.'', w')
              | Inr docs \<Rightarrow>
                  if docs = []
                  then (''No relevant policy information found within your clearance level.'', w')
                  else (str_join ''\<newline>\<newline>---\<newline>\<newline>''
                          (map (\<lambda>doc. ''[Source: '' @ get_default (metadata_source doc) ''Unknown''
                                        @ '']\<newline>'' @ page_content doc) docs), w')))"

text \<open>\<open>s.strip()\<close>. The strings stripped by the program begin and end with ASCII
  characters, so the ASCII white space is the white space that matters.\<close>

definition is_space :: "char \<Rightarrow> bool" where
  "is_space c = (let n = (of_char c :: nat) in (9 \<le> n \<and> n \<le> 13) \<or> (28 \<le> n \<and> n \<le> 32))"

definition strip :: "string \<Rightarrow> string" where
  "strip s = rev (dropWhile is_space (rev (dropWhile is_space s)))"

text \<open>The expression \<open>emp.get('employee_id', 'N/A')[:8] if emp.get('employee_id') else 'N/A'\<close>
  (employee ids are ASCII, so eight characters are eight bytes).\<close>

definition short_employee_id :: "employee \<Rightarrow> string" where
  "short_employee_id emp =
     (case employee_id emp of
        None \<Rightarrow> ''N/A''
      | Some i \<Rightarrow> if i \<noteq> [] then take 8 i else ''N/A'')"

definition format_employee_information :: "OnboardingAssistant \<Rightarrow> string" where
  "format_employee_information self =
     (let emp = employee_information self in
      if emp = no_employee then ''No employee information available.''
      else
        ''\<newline>'' @
        ''Asset Profile[cite: 1881]:\<newline>'' @
        ''- Name: '' @ get_default (name emp) ''Unknown'' @ '' '' @ get_default (lastname emp) [] @ ''\<newline>'' @
        ''- ID: '' @ short_employee_id emp @ ''\<newline>'' @
        ''- Position: '' @ get_default (position emp) ''Unassigned'' @ ''[cite: 139]\<newline>'' @
        ''- Department: '' @ get_default (department emp) ''Unassigned'' @ ''[cite: 126]\<newline>'' @
        ''- Location: '' @ get_default (location emp) ''Unknown'' @ '' (Security Level: '' @ get_default (location_security_level emp) ''GAMMA'' @ '')[cite: 1016, 1099]\<newline>'' @
        ''- Security Clearance Level: SCL-'' @ str_int (self_scl_level (security self)) @ ''[cite: 1028]\<newline>'' @
        ''- Hire Date: '' @ get_default (hire_date emp) ''Unknown'' @ ''\<newline>'' @
        ''- Supervisor: '' @ get_default (supervisor emp) ''Unassigned'' @ ''\<newline>'' @
        ''- Facility Access: '' @ (if has_facility_access emp = Some True then ''Level-4 Authorized'' else ''Standard Access Only'') @ ''[cite: 1049]\<newline>'')"

definition format_transmission_response :: "OnboardingAssistant \<Rightarrow> string \<Rightarrow> string" where
  \<open>format_transmission_response self response =
     (let emp = employee_information self;
          full_name = get_default (name emp) ''Unknown'' @ '' '' @ get_default (lastname emp) [];
          emp_id = short_employee_id emp
      in if str_in ''**TRANSMISSION START**'' response then response
         else
           (let location_reminder =
                  get_default (map_of LOCATION_REMINDERS (self_location (security self))) [];
                formatted =
                  ''\<newline>'' @
                  ''**TRANSMISSION START**\<newline>'' @
                  ''---\<newline>'' @
                  ''**IDENTIFIED ASSET**: '' @ full_name @ '' | '' @ emp_id @ '' | SCL-'' @ str_int (self_scl_level (security self)) @ '' | '' @ self_location (security self) @ ''\<newline>'' @
                  ''**SUBJECT**: Employee Inquiry Response\<newline>'' @
                  ''\<newline>'' @
                  ''**PROTOCOL RESPONSE**: \<newline>'' @
                  response @ ''\<newline>'' @
                  ''\<newline>'' @
                  ''**SECURITY COMPLIANCE NOTIFICATION**: \<newline>'' @
                  ''This transmission is logged under Protocol 7-Alpha[cite: 1121]. Any unauthorized distribution of this information \<newline>'' @
                  ''will result in immediate termination of employment and potential Experimental Participation assignment[cite: 1341].\<newline>'' @
                  ''\<newline>'' @
                  location_reminder @ ''\<newline>'' @
                  ''\<newline>'' @
                  ''"Our business is life itself."\<newline>'' @
                  ''---\<newline>'' @
                  ''**TRANSMISSION END**\<newline>''
            in strip formatted))\<close>

text \<open>The literal \<open>error_response\<close> of the \<open>except\<close> branch of \<open>get_response\<close>.\<close>

definition error_response :: string where
  \<open>error_response =
     ''\<newline>'' @
     ''**TRANSMISSION START**\<newline>'' @
     ''---\<newline>'' @
     ''**SYSTEM ALERT**: Temporary Access Restriction[cite: 1121]\<newline>'' @
     ''\<newline>'' @
     ''**PROTOCOL RESPONSE**: \<newline>'' @
     ''The U-SIOP system is currently experiencing high demand or maintenance. \<newline>'' @
     ''Your inquiry has been queued for processing.\<newline>'' @
     ''\<newline>'' @
     ''Please retry your request in a few moments. If this issue persists, \<newline>'' @
     ''contact the IT Help Desk at extension 4-UMBRELLA.\<newline>'' @
     ''\<newline>'' @
     ''**SECURITY COMPLIANCE NOTIFICATION**: \<newline>'' @
     ''System outages are logged. Do not attempt to bypass security protocols during this time.\<newline>'' @
     ''Unauthorized system access attempts may result in Basement Cleaning Detail (BCD) assignment[cite: 1333].\<newline>'' @
     ''\<newline>'' @
     ''"Our business is life itself."\<newline>'' @
     ''---\<newline>'' @
     ''**TRANSMISSION END**\<newline>''\<close>

text \<open>The \<open>RunnableConfig\<close> of step 4: metadata and tags that describe the employee.\<close>

definition str_replace_char :: "char \<Rightarrow> char \<Rightarrow> string \<Rightarrow> string" where
  "str_replace_char old new s = map (\<lambda>c. if c = old then new else c) s"

definition langsmith_config :: "OnboardingAssistant \<Rightarrow> RunnableConfig" where
  "langsmith_config self =
     (let emp = employee_information self in
      \<lparr> metadata =
          [(''employee_id'', PyStr (take 8 (get_default (employee_id emp) ''unknown''))),
           (''employee_name'', PyStr (get_default (name emp) [] @ '' '' @ get_default (lastname emp) [])),
           (''scl_level'', PyInt (self_scl_level (security self))),
           (''department'', PyStr (get_default (department emp) ''unknown'')),
           (''position'', PyStr (get_default (position emp) ''unknown'')),
           (''location'', PyStr (self_location (security self))),
           (''location_security'', PyStr (self_location_security (security self))),
           (''has_facility_access'', PyBool (get_default (has_facility_access emp) False)),
           (''query_type'', PyStr ''normal'')],
        tags =
          [''scl-'' @ str_int (self_scl_level (security self)),
           ''dept-'' @ get_default (department emp) ''unknown'',
           ''loc-'' @ str_replace_char (CHR '' '') (CHR ''-'') (self_location (security self))] \<rparr>)"

text \<open>
  The body of the \<open>try\<close> block of \<open>get_response\<close>: its value is the string it returns or
  the exception that leaves it, together with the world at that moment.
\<close>

definition get_response_try ::
  "(string \<Rightarrow> string) \<Rightarrow> (string \<Rightarrow> int) \<Rightarrow> OnboardingAssistant \<Rightarrow> string \<Rightarrow> world
     \<Rightarrow> (exn + string) \<times> world" where
  "get_response_try lower hash self user_input w =
     (let (is_allowed, denial_message) =
            check_query_permission lower hash (security self) user_input
      in if \<not> is_allowed then
           (let w1 = add_message (chat_history self) ''human'' user_input w;
                w2 = add_message (chat_history self) ''ai'' denial_message w1
            in (Inr denial_message, w2))
         else
           (let (retrieved_policy_information, w1) = retrieve_policy_information self user_input w;
                employee_info = format_employee_information self;
                dynamic_instruction = get_dynamic_system_instruction (security self);
                w2 = w1\<lparr>calls := calls w1
                          @ [SystemPromptFormat employee_info retrieved_policy_information]\<rparr>
            in case system_prompt self employee_info retrieved_policy_information of
                 Inl e \<Rightarrow> (Inl e, w2)
               | Inr formatted \<Rightarrow>
                   (let formatted_system_prompt = formatted @ ''\<newline>'' @ dynamic_instruction;
                        (history, w3) = get_langchain_messages (chat_history self) w2;
                        config = langsmith_config self;
                        w4 = w3\<lparr>calls := calls w3
                                  @ [ChainInvoke formatted_system_prompt history user_input config]\<rparr>
                    in case llm self formatted_system_prompt history user_input config of
                         Inl e \<Rightarrow> (Inl e, w4)
                       | Inr response \<Rightarrow>
                           (let formatted_response = format_transmission_response self response;
                                w5 = add_message (chat_history self) ''human'' user_input w4;
                                w6 = add_message (chat_history self) ''ai'' formatted_response w5
                            in (Inr formatted_response, w6)))))"

text \<open>\<open>get_response\<close>: the \<open>try\<close> block, and the \<open>except Exception\<close> branch that turns
  any exception into the fixed response.\<close>

definition get_response ::
  "(string \<Rightarrow> string) \<Rightarrow> (string \<Rightarrow> int) \<Rightarrow> OnboardingAssistant \<Rightarrow> string \<Rightarrow> world
     \<Rightarrow> string \<times> world" where
  "get_response lower hash self user_input w =
     (case get_response_try lower hash self user_input w of
        (Inr response, w') \<Rightarrow> (response, w')
      | (Inl e, w') \<Rightarrow> (strip error_response, w'))"

definition clear_history :: "OnboardingAssistant \<Rightarrow> world \<Rightarrow> world" where
  "clear_history self w = clear (chat_history self) w"

definition get_conversation_history :: "OnboardingAssistant \<Rightarrow> world \<Rightarrow> (string \<times> string) list \<times> world" where
  "get_conversation_history self w = get_messages (chat_history self) w"

section \<open>employees.py\<close>

record role =
  role_department :: string
  role_scl :: int
  role_allowed_locations :: "string list"

definition ROLE_DEPARTMENT_MAPPING :: "(string \<times> role) list" where
  "ROLE_DEPARTMENT_MAPPING =
     [(''Research Scientist'',
         \<lparr> role_department = ''R&D'', role_scl = 3,
           role_allowed_locations = [''Raccoon City HQ'', ''Umbrella Europe'', ''Umbrella Asia''] \<rparr>),
      (''Senior Research Lead'',
         \<lparr> role_department = ''R&D'', role_scl = 4,
           role_allowed_locations = [''Raccoon City HQ''] \<rparr>),
      (''Software Engineer'',
         \<lparr> role_department = ''IT'', role_scl = 2,
           role_allowed_locations = [''Raccoon City HQ'', ''Umbrella Europe'', ''Umbrella Asia'',
                                     ''Umbrella North America'', ''Umbrella South America''] \<rparr>),
      (''IT Security Specialist'',
         \<lparr> role_department = ''IT'', role_scl = 3,
           role_allowed_locations = [''Raccoon City HQ'', ''Umbrella Europe''] \<rparr>),
      (''Operations Manager'',
         \<lparr> role_department = ''Operations'', role_scl = 2,
           role_allowed_locations = [''Raccoon City HQ'', ''Umbrella Europe'', ''Umbrella Asia'',
                                     ''Umbrella North America'', ''Umbrella South America''] \<rparr>),
      (''HR Specialist'',
         \<lparr> role_department = ''HR'', role_scl = 1,
           role_allowed_locations = [''Raccoon City HQ'', ''Umbrella Europe'',
                                     ''Umbrella North America''] \<rparr>),
      (''HR Director'',
         \<lparr> role_department = ''HR'', role_scl = 2,
           role_allowed_locations = [''Raccoon City HQ''] \<rparr>),
      (''Security Officer'',
         \<lparr> role_department = ''Security'', role_scl = 4,
           role_allowed_locations = [''Raccoon City HQ'', ''Umbrella Europe''] \<rparr>),
      (''Junior Lab Technician'',
         \<lparr> role_department = ''R&D'', role_scl = 1,
           role_allowed_locations = [''Umbrella Europe'', ''Umbrella Asia'',
                                     ''Umbrella North America'', ''Umbrella South America''] \<rparr>),
      (''Facility Administrator'',
         \<lparr> role_department = ''Operations'', role_scl = 5,
           role_allowed_locations = [''Raccoon City HQ''] \<rparr>)]"

record location_protocol =
  security_level :: string
  has_underground_facility :: bool
  special_protocols :: "string list"
  emergency_contact :: string

definition LOCATION_PROTOCOLS :: "(string \<times> location_protocol) list" where
  "LOCATION_PROTOCOLS =
     [(''Raccoon City HQ'',
         \<lparr> security_level = ''ALPHA'', has_underground_facility = True,
           special_protocols = [''Protocol Omega'', ''Containment Level-4 Access''],
           emergency_contact = ''ext. 4-UMBRELLA'' \<rparr>),
      (''Umbrella Europe'',
         \<lparr> security_level = ''BETA'', has_underground_facility = False,
           special_protocols = [''Standard Security''],
           emergency_contact = ''ext. EU-SECURE'' \<rparr>),
      (''Umbrella Asia'',
         \<lparr> security_level = ''BETA'', has_underground_facility = False,
           special_protocols = [''Standard Security''],
           emergency_contact = ''ext. ASIA-SEC'' \<rparr>),
      (''Umbrella North America'',
         \<lparr> security_level = ''GAMMA'', has_underground_facility = False,
           special_protocols = [''Remote Operations Protocol''],
           emergency_contact = ''ext. NA-OPS'' \<rparr>),
      (''Umbrella South America'',
         \<lparr> security_level = ''GAMMA'', has_underground_facility = False,
           special_protocols = [''Remote Operations Protocol''],
           emergency_contact = ''ext. SA-OPS'' \<rparr>)]"

text \<open>
  What one iteration of the loop of \<open>generate_employee_data\<close> draws from \<open>random\<close> and
  from Faker: the two draws behind \<open>random.choice\<close>, the faked texts, the sampled skills,
  the formatted hire date and the two rounded numbers.
\<close>

record draws =
  position_draw :: nat
  location_draw :: nat
  fake_uuid4 :: string
  fake_first_name :: string
  fake_last_name :: string
  fake_email :: string
  fake_phone_number :: string
  sampled_skills :: "string list"
  hire_date_text :: string
  fake_name :: string
  salary_draw :: real
  performance_draw :: real

text \<open>\<open>random.choice(xs)\<close>: some element of \<open>xs\<close>, selected by the draw; \<open>None\<close> is the
  \<open>IndexError\<close> on an empty sequence.\<close>

definition random_choice :: "'a list \<Rightarrow> nat \<Rightarrow> 'a option" where
  "random_choice xs r = (if xs = [] then None else Some (xs ! (r mod length xs)))"

text \<open>The body of the loop; \<open>None\<close> is an \<open>IndexError\<close> or \<open>KeyError\<close>.\<close>

definition generate_employee :: "draws \<Rightarrow> employee option" where
  "generate_employee d =
     (case random_choice (map fst ROLE_DEPARTMENT_MAPPING) (position_draw d) of
        None \<Rightarrow> None
      | Some pos \<Rightarrow>
          (case map_of ROLE_DEPARTMENT_MAPPING pos of
             None \<Rightarrow> None
           | Some role_data \<Rightarrow>
               (let dept = role_department role_data;
                    scl = role_scl role_data
                in case random_choice (role_allowed_locations role_data) (location_draw d) of
                     None \<Rightarrow> None
                   | Some loc \<Rightarrow>
                       (let location_data = map_of LOCATION_PROTOCOLS loc in
                        Some \<lparr>
                          employee_id = Some (fake_uuid4 d),
                          name = Some (fake_first_name d),
                          lastname = Some (fake_last_name d),
                          email = Some (fake_email d),
                          phone_number = Some (fake_phone_number d),
                          position = Some pos,
                          department = Some dept,
                          clearance_level = Some scl,
                          location = Some loc,
                          location_security_level =
                            Some (case location_data of
                                    None \<Rightarrow> ''UNKNOWN'' | Some ld \<Rightarrow> security_level ld),
                          has_facility_access =
                            Some ((case location_data of
                                     None \<Rightarrow> False | Some ld \<Rightarrow> has_underground_facility ld)
                                  \<and> scl \<ge> 4),
                          skills = Some (sampled_skills d),
                          hire_date = Some (hire_date_text d),
                          supervisor = Some (fake_name d),
                          confidential_salary = Some (salary_draw d),
                          confidential_performance_score = Some (performance_draw d),
                          emergency_contact_ext =
                            Some (case location_data of
                                    None \<Rightarrow> ''ext. 0-HELP'' | Some ld \<Rightarrow> emergency_contact ld)
                        \<rparr>))))"

text \<open>\<open>generate_employee_data\<close>: one employee per iteration of \<open>range(num_employees)\<close>,
  the \<open>i\<close>-th from the \<open>i\<close>-th draws.\<close>

fun collect :: "'a option list \<Rightarrow> 'a list option" where
  "collect [] = Some []"
| "collect (None # _) = None"
| "collect (Some x # xs) = (case collect xs of None \<Rightarrow> None | Some ys \<Rightarrow> Some (x # ys))"

definition generate_employee_data :: "int \<Rightarrow> (nat \<Rightarrow> draws) \<Rightarrow> employee list option" where
  "generate_employee_data num_employees ds =
     collect (map (\<lambda>i. generate_employee (ds i)) [0..<nat num_employees])"

definition get_location_protocols :: "string \<Rightarrow> location_protocol option" where
  "get_location_protocols loc = map_of LOCATION_PROTOCOLS loc"

definition get_role_requirements :: "string \<Rightarrow> role option" where
  "get_role_requirements pos = map_of ROLE_DEPARTMENT_MAPPING pos"

section \<open>Concrete collaborators for running the model\<close>

text \<open>
  Closed instances of the parameters, used where a statement is evaluated on a concrete
  run: a hash function, a system prompt without further placeholders, a generator that
  answers, a generator that raises, a document store that raises, one that finds
  nothing, and an empty world whose database never faults.
\<close>

definition sample_hash :: "string \<Rightarrow> int" where
  "sample_hash s = 7919 * int (length s) + 13"

definition sample_prompt :: "string \<Rightarrow> string \<Rightarrow> exn + string" where
  "sample_prompt employee_info retrieved = Inr (''Profile: '' @ employee_info @ '' Policies: '' @ retrieved)"

definition answering_llm :: "string \<Rightarrow> lc_message list \<Rightarrow> string \<Rightarrow> RunnableConfig \<Rightarrow> exn + string" where
  "answering_llm system history input config = Inr ''Acknowledged.''"

definition failing_llm :: "string \<Rightarrow> lc_message list \<Rightarrow> string \<Rightarrow> RunnableConfig \<Rightarrow> exn + string" where
  "failing_llm system history input config = Inl (Exception ''rate limit exceeded'')"

definition failing_store :: "string \<Rightarrow> int \<Rightarrow> real \<Rightarrow> exn + document list" where
  "failing_store query k threshold = Inl (Exception ''connection refused'')"

definition empty_store :: "string \<Rightarrow> int \<Rightarrow> real \<Rightarrow> exn + document list" where
  "empty_store query k threshold = Inr []"

definition empty_world :: world where
  "empty_world = \<lparr> message_history = [], sqlite_faults = [], calls = [] \<rparr>"

definition sample_employee :: employee where
  "sample_employee =
     no_employee\<lparr> employee_id := Some ''3f2b8c1e-aaaa-4bbb-8ccc-1234567890ab'',
                  name := Some ''Jill'', lastname := Some ''Valentine'',
                  position := Some ''HR Specialist'', department := Some ''HR'',
                  clearance_level := Some 1, location := Some ''Umbrella Europe'',
                  location_security_level := Some ''BETA'',
                  has_facility_access := Some False \<rparr>"

definition sample_assistant ::
  "(string \<Rightarrow> lc_message list \<Rightarrow> string \<Rightarrow> RunnableConfig \<Rightarrow> exn + string) \<Rightarrow>
   (string \<Rightarrow> int \<Rightarrow> real \<Rightarrow> exn + document list) option \<Rightarrow> OnboardingAssistant" where
  "sample_assistant model store =
     fst (OnboardingAssistant_init sample_prompt model store (Some sample_employee)
            ''session-1'' ''chat_history.db'' (1 / 2) empty_world)"

definition sample_draws :: draws where
  "sample_draws =
     \<lparr> position_draw = 1, location_draw = 0,
       fake_uuid4 = ''3f2b8c1e-aaaa-4bbb-8ccc-1234567890ab'',
       fake_first_name = ''Jill'', fake_last_name = ''Valentine'',
       fake_email = ''jill@example.org'', fake_phone_number = ''555-0100'',
       sampled_skills = [''Python'', ''Leadership''],
       hire_date_text = ''2020-01-31'', fake_name = ''Albert Wesker'',
       salary_draw = 50000, performance_draw = 3 \<rparr>"


text \<open>The employee that \<open>generate_employee\<close> builds from \<open>sample_draws\<close>.\<close>

definition sample_generated_employee :: employee where
  "sample_generated_employee = \<lparr> employee_id = Some ''3f2b8c1e-aaaa-4bbb-8ccc-1234567890ab'',
            name = Some ''Jill'', lastname = Some ''Valentine'',
            email = Some ''jill@example.org'', phone_number = Some ''555-0100'',
            position = Some ''Senior Research Lead'', department = Some ''R&D'',
            clearance_level = Some 4, location = Some ''Raccoon City HQ'',
            location_security_level = Some ''ALPHA'',
            has_facility_access = Some True,
            skills = Some [''Python'', ''Leadership''],
            hire_date = Some ''2020-01-31'', supervisor = Some ''Albert Wesker'',
            confidential_salary = Some 50000,
            confidential_performance_score = Some 3,
            emergency_contact_ext = Some ''ext. 4-UMBRELLA'' \<rparr>"


section \<open>Retrieval breadth\<close>

lemma SCL_PERMISSIONS_1: "map_of SCL_PERMISSIONS 1 = Some SCL_1"
  by (simp add: SCL_PERMISSIONS_def)

lemma permissions_of_level:
  "self_permissions (SecurityGuardrails_init (e\<lparr>clearance_level := Some l\<rparr>)) =
     (if l = 1 then SCL_1 else if l = 2 then SCL_2 else if l = 3 then SCL_3
      else if l = 4 then SCL_4 else if l = 5 then SCL_5 else SCL_1)"
  by (simp add: SecurityGuardrails_init_def get_default_def SCL_PERMISSIONS_def Let_def)

lemma level_cases:
  fixes l :: int
  assumes "1 \<le> l" "l \<le> 5"
  shows "l = 1 \<or> l = 2 \<or> l = 3 \<or> l = 4 \<or> l = 5"
  using assms by arith

text \<open>
  Claim C8. The retrieval breadth returned by \<open>get_retrieval_k\<close> is 2, 3, 4, 5 and 10 for
  the clearance levels 1 to 5, and it is monotonically non-decreasing in the clearance
  level over these levels.
\<close>

theorem retrieval_k_monotone:
  fixes e :: employee
  defines "k \<equiv> \<lambda>l. get_retrieval_k (SecurityGuardrails_init (e\<lparr>clearance_level := Some l\<rparr>))"
  shows "k 1 = 2 \<and> k 2 = 3 \<and> k 3 = 4 \<and> k 4 = 5 \<and> k 5 = 10 \<and>
         (\<forall>l1 l2. 1 \<le> l1 \<and> l1 \<le> l2 \<and> l2 \<le> 5 \<longrightarrow> k l1 \<le> k l2)"
proof -
  have vals: "k 1 = 2" "k 2 = 3" "k 3 = 4" "k 4 = 5" "k 5 = 10"
    by (simp_all add: k_def get_retrieval_k_def permissions_of_level
          SCL_1_def SCL_2_def SCL_3_def SCL_4_def SCL_5_def)
  have mono: "k l1 \<le> k l2" if "1 \<le> l1" "l1 \<le> l2" "l2 \<le> 5" for l1 l2
  proof -
    from that have "1 \<le> l2" "l1 \<le> 5" by arith+
    with that level_cases [of l1] level_cases [of l2]
    show ?thesis using vals by auto
  qed
  from vals mono show ?thesis by blast
qed

theorem retrieval_k_monotone_witness:
  "(1::int) \<le> 2 \<and> (2::int) \<le> 4 \<and> (4::int) \<le> 5 \<and>
   get_retrieval_k (SecurityGuardrails_init (no_employee\<lparr>clearance_level := Some 2\<rparr>))
     \<le> get_retrieval_k (SecurityGuardrails_init (no_employee\<lparr>clearance_level := Some 4\<rparr>))"
  using retrieval_k_monotone [of no_employee] by simp

section \<open>The access guard\<close>

lemma find_contained:
  "(\<exists>x\<in>set xs. P x) \<Longrightarrow> \<exists>y. find P xs = Some y \<and> y \<in> set xs \<and> P y"
  by (induction xs) auto

lemma find_none_contained: "(\<forall>x\<in>set xs. \<not> P x) \<Longrightarrow> find P xs = None"
  by (simp add: find_None_iff)

lemma list_ex_set: "list_ex P xs = (\<exists>x\<in>set xs. P x)"
  by (simp add: list_ex_iff)

lemma confidential_first:
  assumes "\<exists>kw\<in>set CONFIDENTIAL_KEYWORDS. str_in kw (lower query)"
  shows "check_query_permission lower hash self query = (False, confidential_data)"
proof -
  from find_contained [OF assms] obtain y
    where "find (\<lambda>keyword. str_in keyword (lower query)) CONFIDENTIAL_KEYWORDS = Some y"
    by blast
  then show ?thesis
    by (simp add: check_query_permission_def generate_confidential_denial_def)
qed

lemma no_confidential:
  assumes "\<forall>kw\<in>set CONFIDENTIAL_KEYWORDS. \<not> str_in kw (lower query)"
  shows "check_query_permission lower hash self query =
     (if (\<exists>kw\<in>set FACILITY_KEYWORDS. str_in kw (lower query)) \<and> \<not> self_has_facility_access self
      then (False, underground_facility)
      else case find (\<lambda>keyword. str_in keyword (lower query))
                  (restricted_keywords (self_permissions self)) of
             Some keyword \<Rightarrow> (False, generate_scl_denial hash self keyword)
           | None \<Rightarrow> (True, []))"
  using find_none_contained [of CONFIDENTIAL_KEYWORDS "\<lambda>keyword. str_in keyword (lower query)"] assms
  by (simp add: check_query_permission_def generate_facility_denial_def list_ex_set)

lemma required_scl_loop_least:
  assumes "required_scl_loop kw SCL_PERMISSIONS 5 = r"
  shows "1 \<le> r \<and> r \<le> 5 \<and>
         (\<exists>p. map_of SCL_PERMISSIONS r = Some p \<and> kw \<notin> set (restricted_keywords p)) \<and>
         (\<forall>t p. 1 \<le> t \<and> t < r \<and> map_of SCL_PERMISSIONS t = Some p
                 \<longrightarrow> kw \<in> set (restricted_keywords p))"
proof -
  show ?thesis using assms
    by (simp add: SCL_PERMISSIONS_def SCL_1_def SCL_2_def SCL_3_def SCL_4_def SCL_5_def
          split: if_splits)
qed


section \<open>The reference id\<close>

lemma digit_char_values:
  "digit_char 0 = CHR ''0''" "digit_char 1 = CHR ''1''" "digit_char 2 = CHR ''2''"
  "digit_char 3 = CHR ''3''" "digit_char 4 = CHR ''4''" "digit_char 5 = CHR ''5''"
  "digit_char 6 = CHR ''6''" "digit_char 7 = CHR ''7''" "digit_char 8 = CHR ''8''"
  "digit_char 9 = CHR ''9''"
  by code_simp+

lemma digit_char_is_digit: "d < 10 \<Longrightarrow> digit_char d \<in> set ''0123456789''"
proof -
  assume "d < 10"
  then have "d = 0 \<or> d = 1 \<or> d = 2 \<or> d = 3 \<or> d = 4 \<or> d = 5 \<or> d = 6 \<or> d = 7 \<or> d = 8 \<or> d = 9"
    by arith
  then show ?thesis
    using digit_char_values by auto
qed

lemma digits_unfold:
  "digits n = (if n < 10 then [digit_char n] else digits (n div 10) @ [digit_char (n mod 10)])"
  by (rule digits.simps)

lemma digits_are_digits: "set (digits n) \<subseteq> set ''0123456789''"
proof (induction n rule: digits.induct)
  case (1 n)
  show ?case
  proof (cases "n < 10")
    case True
    then have "digits n = [digit_char n]" by (simp add: digits_unfold)
    then show ?thesis using digit_char_is_digit [OF True] by simp
  next
    case False
    then have eq: "digits n = digits (n div 10) @ [digit_char (n mod 10)]"
      by (subst digits_unfold) simp
    have "digit_char (n mod 10) \<in> set ''0123456789''"
      by (rule digit_char_is_digit) simp
    with 1 [OF False] show ?thesis unfolding eq by simp
  qed
qed

lemma length_digits:
  "length (digits n) = (if n < 10 then 1 else Suc (length (digits (n div 10))))"
  by (subst digits_unfold) simp

lemma length_digits_le4: "n < 10000 \<Longrightarrow> 1 \<le> length (digits n) \<and> length (digits n) \<le> 4"
proof -
  assume n: "n < 10000"
  have one: "length (digits k) = 1" if "k < 10" for k
    using that by (simp add: length_digits)
  have two: "length (digits k) \<le> 2 \<and> 1 \<le> length (digits k)" if "k < 100" for k
  proof (cases "k < 10")
    case True then show ?thesis using one by simp
  next
    case False
    from that have "k div 10 < 10" by simp
    from one [OF this] False show ?thesis by (simp add: length_digits [of k])
  qed
  have three: "length (digits k) \<le> 3 \<and> 1 \<le> length (digits k)" if "k < 1000" for k
  proof (cases "k < 10")
    case True then show ?thesis using one by simp
  next
    case False
    from that have "k div 10 < 100" by simp
    from two [OF this] False show ?thesis by (simp add: length_digits [of k])
  qed
  show ?thesis
  proof (cases "n < 10")
    case True then show ?thesis using one by simp
  next
    case False
    from n have "n div 10 < 1000" by simp
    from three [OF this] False show ?thesis by (simp add: length_digits [of n])
  qed
qed

lemma ref_id_four_digits:
  "length (generate_ref_id hash seed) = 4 \<and> set (generate_ref_id hash seed) \<subseteq> set ''0123456789''"
proof -
  define m where "m = nat (hash seed mod 10000)"
  have nonneg: "\<not> hash seed mod 10000 < 0"
    using pos_mod_sign [of 10000 "hash seed"] by simp
  have "hash seed mod 10000 < 10000" by simp
  then have m: "m < 10000" by (simp add: m_def)
  have eq: "generate_ref_id hash seed = zfill 4 (digits m)"
    using nonneg by (simp add: generate_ref_id_def format_04d_def m_def)
  from length_digits_le4 [OF m] have "length (zfill 4 (digits m)) = 4"
    by (simp add: zfill_def)
  moreover have "set (zfill 4 (digits m)) \<subseteq> set ''0123456789''"
    using digits_are_digits [of m] by (auto simp: zfill_def)
  ultimately show ?thesis by (simp only: eq) 
qed


section \<open>Denial messages and the three rules\<close>

lemma scl_denial_contains_ref:
  "str_in (''(Ref: SCL-'' @ generate_ref_id hash kw @ '')'') (generate_scl_denial hash self kw)"
proof -
  define a where "a = ''\<newline>'' @
     ''**TRANSMISSION START**\<newline>'' @
     ''---\<newline>'' @
     ''**SECURITY ALERT**: Access Denied - Insufficient Clearance[cite: 1042].\<newline>'' @
     ''\<newline>'' @
     ''**PROTOCOL RESPONSE**: \<newline>'' @
     ''Subject matter requires SCL-'' @ str_int (required_scl_loop kw SCL_PERMISSIONS 5) @ '' authorization[cite: 1028]. \<newline>'' @
     ''Your current status (SCL-'' @ str_int (self_scl_level self) @ '') is insufficient[cite: 1043].\<newline>'' @
     ''\<newline>'' @
     ''Required Action: Submit Form UC-401 (Clearance Elevation Request) to your Department Head.\<newline>'' @
     ''\<newline>'' @
     ''**SECURITY COMPLIANCE NOTIFICATION**: \<newline>'' @
     ''Attempt logged ''"
  define b where "b = ''. Unauthorized access is punishable by Experimental Participation[cite: 1341].\<newline>'' @
     ''---\<newline>'' @
     ''**TRANSMISSION END**\<newline>''"
  have "generate_scl_denial hash self kw = a @ (''(Ref: SCL-'' @ generate_ref_id hash kw @ '')'') @ b"
    by (simp add: generate_scl_denial_def scl_insufficient_def a_def b_def)
  then show ?thesis
    unfolding str_in_def sublist_def by blast
qed

lemma scl_denial_distinct:
  "generate_scl_denial hash self kw \<noteq> underground_facility"
  "generate_scl_denial hash self kw \<noteq> confidential_data"
  by (simp_all add: generate_scl_denial_def scl_insufficient_def underground_facility_def
        confidential_data_def Let_def)

lemma confidential_distinct: "confidential_data \<noteq> underground_facility"
  by (simp add: confidential_data_def underground_facility_def)

text \<open>Letter case. For ASCII text, a spelling of a term in any letter case is found after
  lower-casing; the Turkish capitals of two vocabulary terms are not.\<close>

lemma ascii_spelling:
  "str_in v query \<Longrightarrow> str_in (ascii_lower v) (ascii_lower query)"
  unfolding str_in_def sublist_def ascii_lower_def by (metis map_append)

lemma turkish_capitals:
  "turkish_upper (''de'' @ [CHR 0xC4, CHR 0x9F] @ ''erlendirme'')
     = ''DE'' @ [CHR 0xC4, CHR 0x9E] @ ''ERLEND'' @ [CHR 0xC4, CHR 0xB0] @ ''RME''"
  "turkish_upper (''yeralt'' @ [CHR 0xC4, CHR 0xB1]) = ''YERALTI''"
  by code_simp+

lemma py_lower_capitals:
  "py_lower (''DE'' @ [CHR 0xC4, CHR 0x9E] @ ''ERLEND'' @ [CHR 0xC4, CHR 0xB0] @ ''RME'')
     = ''de'' @ [CHR 0xC4, CHR 0x9F] @ ''erlendi'' @ [CHR 0xCC, CHR 0x87] @ ''rme''"
  by code_simp

text \<open>
  Claim C1, as stated, fails: matching is not insensitive to letter case for every
  spelling. Take the sixth term of \<open>CONFIDENTIAL_KEYWORDS\<close>, the Turkish word for
  evaluation, written in Turkish capitals. \<open>str.lower\<close> turns its dotted capital \<open>U+0130\<close>
  into \<open>i\<close> followed by the combining dot \<open>U+0307\<close>; the lower-cased text contains no
  confidential term, and the query is allowed.
\<close>

theorem turkish_capitals_not_denied:
  "''de'' @ [CHR 0xC4, CHR 0x9F] @ ''erlendirme'' \<in> set CONFIDENTIAL_KEYWORDS \<and>
   turkish_upper (''de'' @ [CHR 0xC4, CHR 0x9F] @ ''erlendirme'')
     = ''DE'' @ [CHR 0xC4, CHR 0x9E] @ ''ERLEND'' @ [CHR 0xC4, CHR 0xB0] @ ''RME'' \<and>
   py_lower (''DE'' @ [CHR 0xC4, CHR 0x9E] @ ''ERLEND'' @ [CHR 0xC4, CHR 0xB0] @ ''RME'')
     = ''de'' @ [CHR 0xC4, CHR 0x9F] @ ''erlendi'' @ [CHR 0xCC, CHR 0x87] @ ''rme'' \<and>
   check_query_permission py_lower sample_hash (SecurityGuardrails_init sample_employee)
     (''DE'' @ [CHR 0xC4, CHR 0x9E] @ ''ERLEND'' @ [CHR 0xC4, CHR 0xB0] @ ''RME'') = (True, [])"
proof -
  let ?q = "''DE'' @ [CHR 0xC4, CHR 0x9E] @ ''ERLEND'' @ [CHR 0xC4, CHR 0xB0] @ ''RME''"
  have k: "''de'' @ [CHR 0xC4, CHR 0x9F] @ ''erlendirme'' \<in> set CONFIDENTIAL_KEYWORDS"
    by (simp add: CONFIDENTIAL_KEYWORDS_def)
  have c: "\<forall>c\<in>set CONFIDENTIAL_KEYWORDS. \<not> str_in c (py_lower ?q)"
    by code_simp
  have f: "\<not> (\<exists>f\<in>set FACILITY_KEYWORDS. str_in f (py_lower ?q))"
    by code_simp
  have r: "find (\<lambda>k. str_in k (py_lower ?q))
             (restricted_keywords (self_permissions (SecurityGuardrails_init sample_employee))) = None"
    by code_simp
  from no_confidential [of py_lower ?q sample_hash "SecurityGuardrails_init sample_employee", OF c] f r
  have "check_query_permission py_lower sample_hash (SecurityGuardrails_init sample_employee) ?q
          = (True, [])"
    by simp
  with k turkish_capitals(1) py_lower_capitals show ?thesis by blast
qed

text \<open>
  Claim C1, amended. For every actor, whatever the clearance level, a query whose text
  after \<open>str.lower()\<close> contains a term of \<open>CONFIDENTIAL_KEYWORDS\<close> as a substring is denied
  with the confidential-data message. No hypothesis is made on the facility rule or on
  the clearance-keyword rule: the confidential rule is evaluated first and wins when they
  would match too. The statement holds for every lower-casing function; for ASCII text it
  covers a term spelled in any letter case (lemma \<open>ascii_spelling\<close>).
\<close>

theorem confidential_rule_denies:
  assumes "\<exists>kw\<in>set CONFIDENTIAL_KEYWORDS. str_in kw (lower query)"
  shows "check_query_permission lower hash self query = (False, confidential_data)"
  using assms by (rule confidential_first)

theorem confidential_rule_denies_witness:
  "(\<exists>kw\<in>set CONFIDENTIAL_KEYWORDS.
      str_in kw (ascii_lower ''Show my SALARY, the underground lab and the Nemesis file'')) \<and>
   (\<exists>kw\<in>set FACILITY_KEYWORDS.
      str_in kw (ascii_lower ''Show my SALARY, the underground lab and the Nemesis file'')) \<and>
   check_query_permission ascii_lower sample_hash
     (SecurityGuardrails_init (no_employee\<lparr>clearance_level := Some 5\<rparr>))
     ''Show my SALARY, the underground lab and the Nemesis file'' = (False, confidential_data)"
proof -
  have h: "\<exists>kw\<in>set CONFIDENTIAL_KEYWORDS.
      str_in kw (ascii_lower ''Show my SALARY, the underground lab and the Nemesis file'')"
    by code_simp
  have f: "\<exists>kw\<in>set FACILITY_KEYWORDS.
      str_in kw (ascii_lower ''Show my SALARY, the underground lab and the Nemesis file'')"
    by code_simp
  from h f confidential_rule_denies
      [of ascii_lower "''Show my SALARY, the underground lab and the Nemesis file''"]
  show ?thesis by blast
qed

lemma digit_char_one: "digit_char (Suc 0) = CHR ''1''"
  using digit_char_values(2) by simp

lemma sample_ref_ids:
  "generate_ref_id sample_hash ''salary'' = ''7527''"
  "generate_ref_id sample_hash ''what is the salary policy'' = ''7988''"
  "generate_ref_id sample_hash ''nemesis'' = ''5446''"
  by (simp_all add: generate_ref_id_def sample_hash_def format_04d_def zfill_def digits.simps
        digit_char_values digit_char_one)

lemma str_int_small: "str_int 1 = ''1''" "str_int 2 = ''2''" "str_int 5 = ''5''"
  by (simp_all add: str_int_def digits.simps digit_char_values digit_char_one)

lemma sample_clearance_denial:
  "check_query_permission ascii_lower sample_hash (SecurityGuardrails_init sample_employee)
     ''Tell me the secret of Nemesis''
     = (False, generate_scl_denial sample_hash (SecurityGuardrails_init sample_employee) ''nemesis'')"
proof -
  have nc: "\<forall>c\<in>set CONFIDENTIAL_KEYWORDS. \<not> str_in c (ascii_lower ''Tell me the secret of Nemesis'')"
    by code_simp
  have nf: "\<not> (\<exists>f\<in>set FACILITY_KEYWORDS. str_in f (ascii_lower ''Tell me the secret of Nemesis''))"
    by code_simp
  have fd: "find (\<lambda>k. str_in k (ascii_lower ''Tell me the secret of Nemesis''))
              (restricted_keywords (self_permissions (SecurityGuardrails_init sample_employee)))
            = Some ''nemesis''"
    by code_simp
  from no_confidential [of ascii_lower "''Tell me the secret of Nemesis''" sample_hash
         "SecurityGuardrails_init sample_employee"] nc nf fd
  show ?thesis by simp
qed

text \<open>
  Claim C2, as stated, fails when the query contains several restricted keywords. A
  level-1 actor asks ``Tell me the secret of Nemesis''. The query contains the restricted
  keyword \<open>secret\<close>, and neither the confidential nor the facility rule applies; the lowest
  tier that does not restrict \<open>secret\<close> is 2, but the denial reports the level 5, that of
  \<open>nemesis\<close>, which comes earlier in the list of level 1.
\<close>

theorem reported_level_is_of_first_match:
  "''secret'' \<in> set (restricted_keywords (self_permissions (SecurityGuardrails_init sample_employee))) \<and>
   str_in ''secret'' (ascii_lower ''Tell me the secret of Nemesis'') \<and>
   \<not> (\<exists>c\<in>set CONFIDENTIAL_KEYWORDS. str_in c (ascii_lower ''Tell me the secret of Nemesis'')) \<and>
   \<not> (\<exists>f\<in>set FACILITY_KEYWORDS. str_in f (ascii_lower ''Tell me the secret of Nemesis'')) \<and>
   required_scl_loop ''secret'' SCL_PERMISSIONS 5 = 2 \<and>
   check_query_permission ascii_lower sample_hash (SecurityGuardrails_init sample_employee)
     ''Tell me the secret of Nemesis''
     = (False, scl_insufficient ''5'' ''1'' ''SCL-5446'') \<and>
   scl_insufficient ''5'' ''1'' ''SCL-5446'' \<noteq> scl_insufficient ''2'' ''1'' ''SCL-5446''"
proof -
  have k: "''secret'' \<in> set (restricted_keywords (self_permissions (SecurityGuardrails_init sample_employee)))"
    by code_simp
  have s: "str_in ''secret'' (ascii_lower ''Tell me the secret of Nemesis'')"
    by code_simp
  have c: "\<not> (\<exists>c\<in>set CONFIDENTIAL_KEYWORDS. str_in c (ascii_lower ''Tell me the secret of Nemesis''))"
    by code_simp
  have f: "\<not> (\<exists>f\<in>set FACILITY_KEYWORDS. str_in f (ascii_lower ''Tell me the secret of Nemesis''))"
    by code_simp
  have m: "required_scl_loop ''secret'' SCL_PERMISSIONS 5 = 2"
    by (simp add: SCL_PERMISSIONS_def SCL_1_def SCL_2_def)
  have n: "required_scl_loop ''nemesis'' SCL_PERMISSIONS 5 = 5"
    by (simp add: SCL_PERMISSIONS_def SCL_1_def SCL_2_def SCL_3_def SCL_4_def SCL_5_def)
  have l: "self_scl_level (SecurityGuardrails_init sample_employee) = 1"
    by (simp add: SecurityGuardrails_init_def sample_employee_def get_default_def)
  have d: "generate_scl_denial sample_hash (SecurityGuardrails_init sample_employee) ''nemesis''
             = scl_insufficient ''5'' ''1'' ''SCL-5446''"
    by (simp add: generate_scl_denial_def n l str_int_small sample_ref_ids)
  have ne: "scl_insufficient ''5'' ''1'' ''SCL-5446'' \<noteq> scl_insufficient ''2'' ''1'' ''SCL-5446''"
    by (simp add: scl_insufficient_def)
  from k s c f m ne sample_clearance_denial [unfolded d] show ?thesis by blast
qed

text \<open>
  Claim C2, amended. For an actor of clearance level \<open>L\<close> between 1 and 5 and a query whose
  text after \<open>str.lower()\<close> contains a restricted keyword of level \<open>L\<close> while neither the
  confidential rule nor the facility rule applies, the query is denied with the
  insufficient-clearance message. The message reports \<open>L\<close> and a required level \<open>r\<close>, the
  lowest tier that does not restrict the triggering keyword: that keyword is not
  restricted at level \<open>r\<close> and is restricted at every level below \<open>r\<close>. The triggering
  keyword is the first restricted keyword of level \<open>L\<close>, in the order of the table, that
  the lower-cased query contains; it is the given keyword when the query contains no
  other restricted keyword of level \<open>L\<close>.
\<close>

theorem clearance_rule_denies:
  fixes L :: int
  assumes level: "1 \<le> L" "L \<le> 5" "clearance_level e = Some L"
    and self: "self = SecurityGuardrails_init e"
    and kw: "kw \<in> set (restricted_keywords (self_permissions self))" "str_in kw (lower query)"
    and conf: "\<forall>c\<in>set CONFIDENTIAL_KEYWORDS. \<not> str_in c (lower query)"
    and fac: "self_has_facility_access self \<or> (\<forall>f\<in>set FACILITY_KEYWORDS. \<not> str_in f (lower query))"
  shows "\<exists>keyword r.
           find (\<lambda>k. str_in k (lower query)) (restricted_keywords (self_permissions self))
             = Some keyword \<and>
           ((\<forall>k\<in>set (restricted_keywords (self_permissions self)).
               str_in k (lower query) \<longrightarrow> k = kw) \<longrightarrow> keyword = kw) \<and>
           check_query_permission lower hash self query =
             (False, scl_insufficient (str_int r) (str_int L)
                       (''SCL-'' @ generate_ref_id hash keyword)) \<and>
           1 \<le> r \<and> r \<le> 5 \<and>
           (\<exists>p. map_of SCL_PERMISSIONS r = Some p \<and> keyword \<notin> set (restricted_keywords p)) \<and>
           (\<forall>t p. 1 \<le> t \<and> t < r \<and> map_of SCL_PERMISSIONS t = Some p
                   \<longrightarrow> keyword \<in> set (restricted_keywords p))"
proof -
  from kw have "\<exists>x\<in>set (restricted_keywords (self_permissions self)). str_in x (lower query)"
    by blast
  from find_contained [OF this] obtain keyword
    where found: "find (\<lambda>k. str_in k (lower query)) (restricted_keywords (self_permissions self))
                    = Some keyword"
      and member: "keyword \<in> set (restricted_keywords (self_permissions self))"
      and inside: "str_in keyword (lower query)"
    by blast
  from member inside have only:
    "(\<forall>k\<in>set (restricted_keywords (self_permissions self)).
        str_in k (lower query) \<longrightarrow> k = kw) \<longrightarrow> keyword = kw"
    by blast
  define r where "r = required_scl_loop keyword SCL_PERMISSIONS 5"
  have scl: "self_scl_level self = L"
    using level(3) self by (simp add: SecurityGuardrails_init_def get_default_def)
  have "check_query_permission lower hash self query = (False, generate_scl_denial hash self keyword)"
    using fac found no_confidential [of lower query hash self] conf by auto
  then have res: "check_query_permission lower hash self query =
      (False, scl_insufficient (str_int r) (str_int L) (''SCL-'' @ generate_ref_id hash keyword))"
    by (simp add: generate_scl_denial_def r_def scl)
  from required_scl_loop_least [of keyword r] found only res show ?thesis
    unfolding r_def by blast
qed

theorem clearance_rule_denies_witness:
  "(1::int) \<le> 1 \<and> (1::int) \<le> 5 \<and> clearance_level sample_employee = Some 1 \<and>
   ''secret'' \<in> set (restricted_keywords (self_permissions (SecurityGuardrails_init sample_employee))) \<and>
   str_in ''secret'' (ascii_lower ''Tell me the SECRET plan'') \<and>
   \<not> (\<exists>c\<in>set CONFIDENTIAL_KEYWORDS. str_in c (ascii_lower ''Tell me the SECRET plan'')) \<and>
   \<not> (\<exists>f\<in>set FACILITY_KEYWORDS. str_in f (ascii_lower ''Tell me the SECRET plan'')) \<and>
   \<not> (\<exists>k\<in>set (restricted_keywords (self_permissions (SecurityGuardrails_init sample_employee))).
         str_in k (ascii_lower ''Tell me the SECRET plan'') \<and> k \<noteq> ''secret'') \<and>
   (\<exists>r. check_query_permission ascii_lower sample_hash (SecurityGuardrails_init sample_employee)
        ''Tell me the SECRET plan'' =
        (False, scl_insufficient (str_int r) (str_int 1)
                  (''SCL-'' @ generate_ref_id sample_hash ''secret'')) \<and>
      1 \<le> r \<and> r \<le> 5 \<and>
      (\<exists>p. map_of SCL_PERMISSIONS r = Some p \<and> ''secret'' \<notin> set (restricted_keywords p)) \<and>
      (\<forall>t p. 1 \<le> t \<and> t < r \<and> map_of SCL_PERMISSIONS t = Some p
              \<longrightarrow> ''secret'' \<in> set (restricted_keywords p)))"
proof -
  let ?q = "''Tell me the SECRET plan''"
  let ?s = "SecurityGuardrails_init sample_employee"
  have l: "clearance_level sample_employee = Some 1"
    by (simp add: sample_employee_def)
  have k: "''secret'' \<in> set (restricted_keywords (self_permissions ?s))"
    by code_simp
  have s: "str_in ''secret'' (ascii_lower ?q)"
    by code_simp
  have c: "\<forall>c\<in>set CONFIDENTIAL_KEYWORDS. \<not> str_in c (ascii_lower ?q)"
    by code_simp
  have f: "\<forall>f\<in>set FACILITY_KEYWORDS. \<not> str_in f (ascii_lower ?q)"
    by code_simp
  have o: "\<forall>k\<in>set (restricted_keywords (self_permissions ?s)).
             str_in k (ascii_lower ?q) \<longrightarrow> k = ''secret''"
    by code_simp
  from f have f': "self_has_facility_access ?s \<or>
     (\<forall>f\<in>set FACILITY_KEYWORDS. \<not> str_in f (ascii_lower ?q))"
    by (rule disjI2)
  have one: "(1::int) \<le> 1" "(1::int) \<le> 5" by simp_all
  from clearance_rule_denies [where lower = ascii_lower and hash = sample_hash
        and query = ?q, OF one l refl k s c f'] o
  have "\<exists>r. check_query_permission ascii_lower sample_hash ?s ?q =
        (False, scl_insufficient (str_int r) (str_int 1)
                  (''SCL-'' @ generate_ref_id sample_hash ''secret'')) \<and>
      1 \<le> r \<and> r \<le> 5 \<and>
      (\<exists>p. map_of SCL_PERMISSIONS r = Some p \<and> ''secret'' \<notin> set (restricted_keywords p)) \<and>
      (\<forall>t p. 1 \<le> t \<and> t < r \<and> map_of SCL_PERMISSIONS t = Some p
              \<longrightarrow> ''secret'' \<in> set (restricted_keywords p))"
    by blast
  with l k s c f o one show ?thesis by blast
qed

lemma confidential_data_no_ref: "\<not> str_in ''Ref'' confidential_data"
  by (simp add: str_in_def confidential_data_def sublist_code)

lemma underground_facility_no_ref: "\<not> str_in ''Ref'' underground_facility"
  by (simp add: str_in_def underground_facility_def sublist_code)

text \<open>
  Claim C4, as stated, fails: the denial of a query caught by the confidential rule is the
  fixed text \<open>confidential_data\<close>, which contains no reference at all, and in particular
  neither the reference id of the triggering keyword nor that of the query.
\<close>

theorem confidential_denial_without_ref_id:
  "check_query_permission ascii_lower sample_hash (SecurityGuardrails_init sample_employee)
     ''what is the salary policy'' = (False, confidential_data) \<and>
   \<not> str_in ''Ref'' confidential_data \<and>
   \<not> str_in (generate_ref_id sample_hash ''salary'') confidential_data \<and>
   \<not> str_in (generate_ref_id sample_hash ''what is the salary policy'') confidential_data"
proof -
  have "\<exists>kw\<in>set CONFIDENTIAL_KEYWORDS. str_in kw (ascii_lower ''what is the salary policy'')"
    by code_simp
  from confidential_first [of ascii_lower "''what is the salary policy''", OF this]
  have c: "check_query_permission ascii_lower sample_hash (SecurityGuardrails_init sample_employee)
     ''what is the salary policy'' = (False, confidential_data)" .
  have n1: "\<not> str_in ''7527'' confidential_data"
    by (simp add: str_in_def confidential_data_def sublist_code)
  have n2: "\<not> str_in ''7988'' confidential_data"
    by (simp add: str_in_def confidential_data_def sublist_code)
  from c confidential_data_no_ref n1 n2 show ?thesis by (simp add: sample_ref_ids)
qed

text \<open>
  Claim C4, amended. A denial of \<open>check_query_permission\<close> is the fixed confidential text,
  the fixed facility text, or the insufficient-clearance text for a restricted keyword
  found in the query; only the last contains a reference, \<open>(Ref: SCL-dddd)\<close>, whose four
  decimal digits are \<open>hash(keyword) % 10000\<close> padded with zeros.
\<close>

theorem denial_reference_id:
  assumes "check_query_permission lower hash self query = (False, message)"
  shows "message = confidential_data \<or> message = underground_facility \<or>
         (\<exists>keyword\<in>set (restricted_keywords (self_permissions self)).
            str_in keyword (lower query) \<and>
            message = generate_scl_denial hash self keyword \<and>
            str_in (''(Ref: SCL-'' @ generate_ref_id hash keyword @ '')'') message \<and>
            length (generate_ref_id hash keyword) = 4 \<and>
            set (generate_ref_id hash keyword) \<subseteq> set ''0123456789'')"
proof (cases "\<exists>kw\<in>set CONFIDENTIAL_KEYWORDS. str_in kw (lower query)")
  case True
  from confidential_first [of lower query hash self, OF True] assms show ?thesis by simp
next
  case False
  then have nc: "\<forall>kw\<in>set CONFIDENTIAL_KEYWORDS. \<not> str_in kw (lower query)" by blast
  show ?thesis
  proof (cases "(\<exists>kw\<in>set FACILITY_KEYWORDS. str_in kw (lower query)) \<and> \<not> self_has_facility_access self")
    case True
    with no_confidential [of lower query hash self] nc assms show ?thesis by simp
  next
    case False
    with no_confidential [of lower query hash self] nc assms
    obtain keyword where found:
      "find (\<lambda>keyword. str_in keyword (lower query)) (restricted_keywords (self_permissions self)) = Some keyword"
      and msg: "message = generate_scl_denial hash self keyword"
      by (auto split: option.splits)
    from found have "keyword \<in> set (restricted_keywords (self_permissions self))" "str_in keyword (lower query)"
      by (auto simp: find_Some_iff)
    with msg scl_denial_contains_ref [of hash keyword self] ref_id_four_digits [of hash keyword]
    show ?thesis by blast
  qed
qed

theorem denial_reference_id_witness:
  "check_query_permission ascii_lower sample_hash (SecurityGuardrails_init sample_employee)
     ''Tell me the secret of Nemesis''
     = (False, generate_scl_denial sample_hash (SecurityGuardrails_init sample_employee) ''nemesis'') \<and>
   (\<exists>keyword\<in>set (restricted_keywords (self_permissions (SecurityGuardrails_init sample_employee))).
      str_in keyword (ascii_lower ''Tell me the secret of Nemesis'') \<and>
      generate_scl_denial sample_hash (SecurityGuardrails_init sample_employee) ''nemesis''
        = generate_scl_denial sample_hash (SecurityGuardrails_init sample_employee) keyword \<and>
      str_in (''(Ref: SCL-'' @ generate_ref_id sample_hash keyword @ '')'')
        (generate_scl_denial sample_hash (SecurityGuardrails_init sample_employee) ''nemesis'') \<and>
      length (generate_ref_id sample_hash keyword) = 4 \<and>
      set (generate_ref_id sample_hash keyword) \<subseteq> set ''0123456789'')"
proof -
  note c = sample_clearance_denial
  from denial_reference_id [OF c]
    scl_denial_distinct [of sample_hash "SecurityGuardrails_init sample_employee" "''nemesis''"] c
  show ?thesis by blast
qed

lemma init_has_facility_access:
  "self_has_facility_access (SecurityGuardrails_init e) = (has_facility_access e = Some True)"
  by (auto simp: SecurityGuardrails_init_def get_default_def Let_def split: option.splits)

text \<open>
  Claim C5, as stated, fails: matching is not insensitive to letter case for every
  spelling. The second term of \<open>FACILITY_KEYWORDS\<close>, the Turkish word for underground,
  ends with the dotless \<open>U+0131\<close>, whose capital is \<open>I\<close>. The query ``YERALTI tesisi
  nerede'' contains the term in capitals; \<open>str.lower\<close> turns \<open>I\<close> into the dotted \<open>i\<close>, the
  lower-cased text contains no facility term, and the query of an actor without facility
  access is allowed.
\<close>

theorem capitals_pass_facility_rule:
  "''yeralt'' @ [CHR 0xC4, CHR 0xB1] \<in> set FACILITY_KEYWORDS \<and>
   turkish_upper (''yeralt'' @ [CHR 0xC4, CHR 0xB1]) = ''YERALTI'' \<and>
   str_in ''YERALTI'' ''YERALTI tesisi nerede'' \<and>
   ascii_lower ''YERALTI tesisi nerede'' = ''yeralti tesisi nerede'' \<and>
   has_facility_access sample_employee = Some False \<and>
   check_query_permission ascii_lower sample_hash (SecurityGuardrails_init sample_employee)
     ''YERALTI tesisi nerede'' = (True, [])"
proof -
  let ?q = "''YERALTI tesisi nerede''"
  have k: "''yeralt'' @ [CHR 0xC4, CHR 0xB1] \<in> set FACILITY_KEYWORDS"
    by (simp add: FACILITY_KEYWORDS_def)
  have s: "str_in ''YERALTI'' ?q"
    by (simp add: str_in_def sublist_code)
  have l: "ascii_lower ?q = ''yeralti tesisi nerede''"
    by code_simp
  have a: "has_facility_access sample_employee = Some False"
    by (simp add: sample_employee_def)
  have c: "\<forall>c\<in>set CONFIDENTIAL_KEYWORDS. \<not> str_in c (ascii_lower ?q)"
    by code_simp
  have f: "\<not> (\<exists>f\<in>set FACILITY_KEYWORDS. str_in f (ascii_lower ?q))"
    by code_simp
  have r: "find (\<lambda>k. str_in k (ascii_lower ?q))
             (restricted_keywords (self_permissions (SecurityGuardrails_init sample_employee))) = None"
    by code_simp
  from no_confidential [of ascii_lower ?q sample_hash "SecurityGuardrails_init sample_employee", OF c] f r
  have "check_query_permission ascii_lower sample_hash (SecurityGuardrails_init sample_employee) ?q
          = (True, [])"
    by simp
  with k turkish_capitals(2) s l a show ?thesis by blast
qed

text \<open>
  Claim C5, amended. Take a query whose text after \<open>str.lower()\<close> contains a term of
  \<open>FACILITY_KEYWORDS\<close> and no term of \<open>CONFIDENTIAL_KEYWORDS\<close> as a substring. For an actor
  whose facility-access flag is not true it is denied with the facility message. For
  an actor whose flag is true, of any clearance level, the result is not the facility
  denial: the query is allowed, or it is denied by the clearance-keyword rule. The
  statement holds for every lower-casing function; for ASCII text it covers a term
  spelled in any letter case (lemma \<open>ascii_spelling\<close>).
\<close>

theorem facility_rule:
  assumes fac: "\<exists>f\<in>set FACILITY_KEYWORDS. str_in f (lower query)"
    and conf: "\<forall>c\<in>set CONFIDENTIAL_KEYWORDS. \<not> str_in c (lower query)"
    and no: "has_facility_access e1 \<noteq> Some True"
    and yes: "has_facility_access e2 = Some True"
  shows "check_query_permission lower hash (SecurityGuardrails_init e1) query
           = (False, underground_facility) \<and>
         check_query_permission lower hash (SecurityGuardrails_init e2) query
           \<noteq> (False, underground_facility) \<and>
         (check_query_permission lower hash (SecurityGuardrails_init e2) query = (True, []) \<or>
          (\<exists>keyword\<in>set (restricted_keywords (self_permissions (SecurityGuardrails_init e2))).
             check_query_permission lower hash (SecurityGuardrails_init e2) query
               = (False, generate_scl_denial hash (SecurityGuardrails_init e2) keyword)))"
proof -
  let ?s1 = "SecurityGuardrails_init e1" and ?s2 = "SecurityGuardrails_init e2"
  have denied: "check_query_permission lower hash ?s1 query = (False, underground_facility)"
    using no_confidential [of lower query hash ?s1] conf fac no
    by (simp add: init_has_facility_access)
  have rest: "check_query_permission lower hash ?s2 query =
      (case find (\<lambda>keyword. str_in keyword (lower query)) (restricted_keywords (self_permissions ?s2)) of
         Some keyword \<Rightarrow> (False, generate_scl_denial hash ?s2 keyword)
       | None \<Rightarrow> (True, []))"
    using no_confidential [of lower query hash ?s2] conf yes
    by (simp add: init_has_facility_access)
  show ?thesis
  proof (cases "find (\<lambda>keyword. str_in keyword (lower query)) (restricted_keywords (self_permissions ?s2))")
    case None
    with rest denied show ?thesis by simp
  next
    case (Some keyword)
    then have "keyword \<in> set (restricted_keywords (self_permissions ?s2))"
      by (auto simp: find_Some_iff)
    with Some rest denied scl_denial_distinct(1) [of hash ?s2 keyword] show ?thesis
      by auto
  qed
qed

theorem facility_rule_witness:
  "(\<exists>f\<in>set FACILITY_KEYWORDS. str_in f (ascii_lower ''Tell me about the UNDERGROUND facility'')) \<and>
   \<not> (\<exists>c\<in>set CONFIDENTIAL_KEYWORDS. str_in c (ascii_lower ''Tell me about the UNDERGROUND facility'')) \<and>
   has_facility_access sample_employee \<noteq> Some True \<and>
   has_facility_access (sample_employee\<lparr>clearance_level := Some 5, has_facility_access := Some True\<rparr>)
     = Some True \<and>
   check_query_permission ascii_lower sample_hash (SecurityGuardrails_init sample_employee)
     ''Tell me about the UNDERGROUND facility'' = (False, underground_facility) \<and>
   check_query_permission ascii_lower sample_hash
     (SecurityGuardrails_init
        (sample_employee\<lparr>clearance_level := Some 5, has_facility_access := Some True\<rparr>))
     ''Tell me about the UNDERGROUND facility'' \<noteq> (False, underground_facility)"
proof -
  have f: "\<exists>f\<in>set FACILITY_KEYWORDS. str_in f (ascii_lower ''Tell me about the UNDERGROUND facility'')"
    by code_simp
  have c: "\<forall>c\<in>set CONFIDENTIAL_KEYWORDS. \<not> str_in c (ascii_lower ''Tell me about the UNDERGROUND facility'')"
    by code_simp
  have n: "has_facility_access sample_employee \<noteq> Some True"
    by (simp add: sample_employee_def)
  have y: "has_facility_access (sample_employee\<lparr>clearance_level := Some 5, has_facility_access := Some True\<rparr>)
     = Some True"
    by simp
  from facility_rule [of ascii_lower "''Tell me about the UNDERGROUND facility''" sample_employee
         "sample_employee\<lparr>clearance_level := Some 5, has_facility_access := Some True\<rparr>" sample_hash,
         OF f c n y] f c n y
  show ?thesis by blast
qed

text \<open>
  Claim C9. In \<open>SCL_PERMISSIONS\<close> the restricted keywords of a higher level are among those
  of every lower level, and level 5 has none; hence a query of a level-5 actor is denied by
  the confidential rule, denied by the facility rule, or allowed.
\<close>

theorem restricted_keywords_shrink:
  "(\<forall>l1 l2 p1 p2. 1 \<le> l1 \<and> l1 < l2 \<and> l2 \<le> 5 \<and>
       map_of SCL_PERMISSIONS l1 = Some p1 \<and> map_of SCL_PERMISSIONS l2 = Some p2
       \<longrightarrow> set (restricted_keywords p2) \<subseteq> set (restricted_keywords p1)) \<and>
   (\<exists>p5. map_of SCL_PERMISSIONS 5 = Some p5 \<and> restricted_keywords p5 = []) \<and>
   (\<forall>e lower hash query. clearance_level e = Some 5 \<longrightarrow>
       check_query_permission lower hash (SecurityGuardrails_init e) query
         \<in> {(False, confidential_data), (False, underground_facility), (True, [])})"
proof -
  have subset: "set (restricted_keywords p2) \<subseteq> set (restricted_keywords p1)"
    if "1 \<le> l1" "l1 < l2" "l2 \<le> 5"
       "map_of SCL_PERMISSIONS l1 = Some p1" "map_of SCL_PERMISSIONS l2 = Some p2"
    for l1 l2 :: int and p1 p2
  proof -
    from that have "l1 = 1 \<or> l1 = 2 \<or> l1 = 3 \<or> l1 = 4" "l2 = 2 \<or> l2 = 3 \<or> l2 = 4 \<or> l2 = 5"
      by arith+
    with that show ?thesis
      by (auto simp: SCL_PERMISSIONS_def SCL_1_def SCL_2_def SCL_3_def SCL_4_def SCL_5_def)
  qed
  have five: "\<exists>p5. map_of SCL_PERMISSIONS 5 = Some p5 \<and> restricted_keywords p5 = []"
    by (simp add: SCL_PERMISSIONS_def SCL_5_def)
  have top: "check_query_permission lower hash (SecurityGuardrails_init e) query
         \<in> {(False, confidential_data), (False, underground_facility), (True, [])}"
    if "clearance_level e = Some 5" for e lower hash query
  proof -
    from that have "self_permissions (SecurityGuardrails_init e) = SCL_5"
      by (simp add: SecurityGuardrails_init_def get_default_def SCL_PERMISSIONS_def)
    then have none: "restricted_keywords (self_permissions (SecurityGuardrails_init e)) = []"
      by (simp add: SCL_5_def)
    show ?thesis
    proof (cases "\<exists>kw\<in>set CONFIDENTIAL_KEYWORDS. str_in kw (lower query)")
      case True
      from confidential_first [of lower query hash "SecurityGuardrails_init e", OF True]
      show ?thesis by simp
    next
      case False
      then have "\<forall>kw\<in>set CONFIDENTIAL_KEYWORDS. \<not> str_in kw (lower query)" by blast
      from no_confidential [of lower query hash "SecurityGuardrails_init e", OF this] none
      show ?thesis by simp
    qed
  qed
  from subset five top show ?thesis by blast
qed

theorem restricted_keywords_shrink_witness:
  "(1::int) \<le> 2 \<and> (2::int) < 4 \<and> (4::int) \<le> 5 \<and>
   map_of SCL_PERMISSIONS 2 = Some SCL_2 \<and> map_of SCL_PERMISSIONS 4 = Some SCL_4 \<and>
   set (restricted_keywords SCL_4) \<subseteq> set (restricted_keywords SCL_2) \<and>
   clearance_level (sample_employee\<lparr>clearance_level := Some 5\<rparr>) = Some 5 \<and>
   check_query_permission ascii_lower sample_hash
     (SecurityGuardrails_init (sample_employee\<lparr>clearance_level := Some 5\<rparr>))
     ''Open the Nemesis and Tyrant files''
     \<in> {(False, confidential_data), (False, underground_facility), (True, [])}"
proof -
  have m: "map_of SCL_PERMISSIONS 2 = Some SCL_2" "map_of SCL_PERMISSIONS 4 = Some SCL_4"
    by (simp_all add: SCL_PERMISSIONS_def)
  have l: "clearance_level (sample_employee\<lparr>clearance_level := Some 5\<rparr>) = Some 5"
    by simp
  have o: "(1::int) \<le> 2 \<and> (2::int) < 4 \<and> (4::int) \<le> 5" by simp
  from restricted_keywords_shrink m l o show ?thesis by blast
qed

section \<open>Retrieval\<close>

lemma str_join_nonempty: "xs \<noteq> [] \<Longrightarrow> hd xs \<noteq> [] \<Longrightarrow> str_join sep xs \<noteq> []"
  by (induction sep xs rule: str_join.induct) auto

lemma retrieve_cases:
  "retrieve_policy_information self query w =
     (case vector_store self of
        None \<Rightarrow> (''No policy information available.'', w)
      | Some store \<Rightarrow>
          (case store query (get_retrieval_k (security self)) (retrieval_score_threshold self) of
             Inl e \<Rightarrow> ''Policy database temporarily unavailable. Please try again later.''
           | Inr docs \<Rightarrow>
               if docs = []
               then ''No relevant policy information found within your clearance level.''
               else str_join ''\<newline>\<newline>---\<newline>\<newline>''
                      (map (\<lambda>doc. ''[Source: '' @ get_default (metadata_source doc) ''Unknown''
                                    @ '']\<newline>'' @ page_content doc) docs),
           w\<lparr>calls := calls w @ [RetrieverInvoke query (get_retrieval_k (security self))
                                  (retrieval_score_threshold self)]\<rparr>))"
  by (simp add: retrieve_policy_information_def Let_def split: option.splits sum.splits)

lemma retrieve_nonempty: "fst (retrieve_policy_information self query w) \<noteq> []"
proof (cases "vector_store self")
  case None
  then show ?thesis by (simp add: retrieve_cases)
next
  case (Some store)
  show ?thesis
  proof (cases "store query (get_retrieval_k (security self)) (retrieval_score_threshold self)")
    case (Inl e)
    with Some show ?thesis by (simp add: retrieve_cases)
  next
    case (Inr docs)
    show ?thesis
    proof (cases "docs = []")
      case True
      with Some Inr show ?thesis by (simp add: retrieve_cases)
    next
      case False
      then have "str_join ''\<newline>\<newline>---\<newline>\<newline>''
                      (map (\<lambda>doc. ''[Source: '' @ get_default (metadata_source doc) ''Unknown''
                                    @ '']\<newline>'' @ page_content doc) docs) \<noteq> []"
        by (intro str_join_nonempty) (simp_all add: hd_map)
      with Some Inr False show ?thesis by (simp add: retrieve_cases)
    qed
  qed
qed

lemma retrieve_keeps_history:
  "message_history (snd (retrieve_policy_information self query w)) = message_history w"
  "sqlite_faults (snd (retrieve_policy_information self query w)) = sqlite_faults w"
  by (simp_all add: retrieve_cases split: option.splits)

lemma sample_assistant_fields:
  "vector_store (sample_assistant model store) = store"
  "llm (sample_assistant model store) = model"
  "system_prompt (sample_assistant model store) = sample_prompt"
  "security (sample_assistant model store) = SecurityGuardrails_init sample_employee"
  "employee_information (sample_assistant model store) = sample_employee"
  "retrieval_score_threshold (sample_assistant model store) = 1 / 2"
  "chat_history (sample_assistant model store) = \<lparr> db_path = ''chat_history.db'', session_id = ''session-1'' \<rparr>"
  by (simp_all add: sample_assistant_def OnboardingAssistant_init_def ChatMessageHistory_init_def
        get_default_def Let_def split: prod.splits)

text \<open>
  Claim C7, as stated, fails for the store that is not available at all: when
  \<open>vector_store\<close> is \<open>None\<close> the result is another sentinel, which does not say
  ``temporarily unavailable''.
\<close>

theorem missing_store_sentinel:
  "vector_store (sample_assistant answering_llm None) = None \<and>
   fst (retrieve_policy_information (sample_assistant answering_llm None)
          ''what are the office hours'' empty_world) = ''No policy information available.'' \<and>
   \<not> str_in ''temporarily unavailable''
        (fst (retrieve_policy_information (sample_assistant answering_llm None)
                ''what are the office hours'' empty_world))"
  by (simp add: retrieve_cases sample_assistant_fields str_in_def sublist_code)

text \<open>
  Claim C7, amended. \<open>_retrieve_policy_information\<close> returns a non-empty string in every
  case and never raises: the sentinel ``No policy information available.'' when there is
  no store (and then the store is not queried), the sentinel ``Policy database
  temporarily unavailable. Please try again later.'' when the store raises, and the
  sentinel ``No relevant policy information found within your clearance level.'' when no
  passage is returned.
\<close>

theorem retrieval_sentinels:
  "fst (retrieve_policy_information self query w) \<noteq> [] \<and>
   (vector_store self = None \<longrightarrow>
      retrieve_policy_information self query w = (''No policy information available.'', w)) \<and>
   (\<forall>store e. vector_store self = Some store \<and>
        store query (get_retrieval_k (security self)) (retrieval_score_threshold self) = Inl e \<longrightarrow>
      fst (retrieve_policy_information self query w)
        = ''Policy database temporarily unavailable. Please try again later.'') \<and>
   (\<forall>store. vector_store self = Some store \<and>
        store query (get_retrieval_k (security self)) (retrieval_score_threshold self) = Inr [] \<longrightarrow>
      fst (retrieve_policy_information self query w)
        = ''No relevant policy information found within your clearance level.'')"
  using retrieve_nonempty [of self query w] by (simp add: retrieve_cases)

theorem retrieval_sentinels_witness:
  "vector_store (sample_assistant answering_llm (Some failing_store)) = Some failing_store \<and>
   failing_store ''what are the office hours''
     (get_retrieval_k (security (sample_assistant answering_llm (Some failing_store))))
     (retrieval_score_threshold (sample_assistant answering_llm (Some failing_store)))
     = Inl (Exception ''connection refused'') \<and>
   fst (retrieve_policy_information (sample_assistant answering_llm (Some failing_store))
          ''what are the office hours'' empty_world)
     = ''Policy database temporarily unavailable. Please try again later.''"
proof -
  have v: "vector_store (sample_assistant answering_llm (Some failing_store)) = Some failing_store"
    by (simp add: sample_assistant_fields)
  have f: "failing_store ''what are the office hours''
     (get_retrieval_k (security (sample_assistant answering_llm (Some failing_store))))
     (retrieval_score_threshold (sample_assistant answering_llm (Some failing_store)))
     = Inl (Exception ''connection refused'')"
    by (simp add: failing_store_def)
  from retrieval_sentinels [of "sample_assistant answering_llm (Some failing_store)"
         "''what are the office hours''" empty_world] v f
  show ?thesis by blast
qed


section \<open>The message history\<close>

lemma sqlite_op_keeps:
  "message_history (snd (sqlite_op w)) = message_history w"
  "calls (snd (sqlite_op w)) = calls w"
  by (simp_all add: sqlite_op_def split: list.splits)

lemma add_message_calls: "calls (add_message h role content w) = calls w"
  by (simp add: add_message_def sqlite_op_def split: list.splits bool.splits)

lemma add_message_no_fault:
  assumes "\<forall>fault\<in>set (take 1 (sqlite_faults w)). \<not> fault"
  shows "add_message h role content w =
           w\<lparr>message_history := message_history w @ [(session_id h, role, content)],
             sqlite_faults := tl (sqlite_faults w)\<rparr>"
  using assms by (cases "sqlite_faults w") (simp_all add: add_message_def sqlite_op_def)

lemma add_message_fault:
  assumes "sqlite_faults w = True # faults"
  shows "add_message h role content w = w\<lparr>sqlite_faults := faults\<rparr>"
  using assms by (simp add: add_message_def sqlite_op_def)

lemma get_langchain_messages_keeps:
  "message_history (snd (get_langchain_messages h w)) = message_history w"
  "calls (snd (get_langchain_messages h w)) = calls w"
  by (simp_all add: get_langchain_messages_def get_messages_def sqlite_op_def
        split: prod.splits list.splits bool.splits)

section \<open>A denied turn\<close>

lemma denied_turn:
  assumes "check_query_permission lower hash (security self) user_input = (False, denial_message)"
  shows "get_response lower hash self user_input w =
           (denial_message,
            add_message (chat_history self) ''ai'' denial_message
              (add_message (chat_history self) ''human'' user_input w))"
  using assms by (simp add: get_response_def get_response_try_def Let_def)

text \<open>
  Claim C6. When \<open>check_query_permission\<close> denies the query, \<open>get_response\<close> returns the
  denial text; its only effects are two calls of \<open>add_message\<close>, first the query with
  role \<open>human\<close>, then the denial with role \<open>ai\<close>; nothing is asked of the document
  store, of the prompt formatting or of the generator (the log of calls is unchanged); and
  when the database accepts the two writes, the table gains exactly these two rows, in
  this order.
\<close>

theorem denied_turn_persists_two_messages:
  assumes denied: "\<not> fst (check_query_permission lower hash (security self) user_input)"
  shows "fst (get_response lower hash self user_input w)
           = snd (check_query_permission lower hash (security self) user_input) \<and>
         snd (get_response lower hash self user_input w)
           = add_message (chat_history self) ''ai''
               (snd (check_query_permission lower hash (security self) user_input))
               (add_message (chat_history self) ''human'' user_input w) \<and>
         calls (snd (get_response lower hash self user_input w)) = calls w \<and>
         ((\<forall>fault\<in>set (take 2 (sqlite_faults w)). \<not> fault) \<longrightarrow>
            message_history (snd (get_response lower hash self user_input w))
              = message_history w @
                  [(session_id (chat_history self), ''human'', user_input),
                   (session_id (chat_history self), ''ai'',
                    snd (check_query_permission lower hash (security self) user_input))])"
proof -
  define denial_message where
    "denial_message = snd (check_query_permission lower hash (security self) user_input)"
  from denied have chk:
    "check_query_permission lower hash (security self) user_input = (False, denial_message)"
    by (simp add: denial_message_def prod_eq_iff)
  define w1 where "w1 = add_message (chat_history self) ''human'' user_input w"
  have res: "get_response lower hash self user_input w
          = (denial_message, add_message (chat_history self) ''ai'' denial_message w1)"
    unfolding w1_def by (rule denied_turn [OF chk])
  have quiet: "calls (add_message (chat_history self) ''ai'' denial_message w1) = calls w"
    by (simp add: add_message_calls w1_def)
  have rows: "message_history (add_message (chat_history self) ''ai'' denial_message w1)
                = message_history w @
                    [(session_id (chat_history self), ''human'', user_input),
                     (session_id (chat_history self), ''ai'', denial_message)]"
    if store_ok: "\<forall>fault\<in>set (take 2 (sqlite_faults w)). \<not> fault"
  proof -
    have f1: "\<forall>fault\<in>set (take 1 (sqlite_faults w)). \<not> fault"
      using store_ok by (cases "sqlite_faults w") auto
    have w1: "w1 = w\<lparr>message_history := message_history w
                         @ [(session_id (chat_history self), ''human'', user_input)],
                     sqlite_faults := tl (sqlite_faults w)\<rparr>"
      unfolding w1_def by (rule add_message_no_fault [OF f1])
    have f2: "\<forall>fault\<in>set (take 1 (sqlite_faults w1)). \<not> fault"
      using store_ok by (cases "sqlite_faults w"; cases "tl (sqlite_faults w)") (auto simp: w1)
    show ?thesis
      unfolding add_message_no_fault [OF f2] by (simp add: w1)
  qed
  from res quiet rows show ?thesis
    by (simp add: denial_message_def w1_def)
qed

lemma sample_facility_denial:
  "check_query_permission ascii_lower sample_hash (SecurityGuardrails_init sample_employee)
     ''tell me about the underground facility'' = (False, underground_facility)"
proof -
  have f: "\<exists>f\<in>set FACILITY_KEYWORDS. str_in f (ascii_lower ''tell me about the underground facility'')"
    by code_simp
  have c: "\<forall>c\<in>set CONFIDENTIAL_KEYWORDS. \<not> str_in c (ascii_lower ''tell me about the underground facility'')"
    by code_simp
  from no_confidential [of ascii_lower "''tell me about the underground facility''" sample_hash
         "SecurityGuardrails_init sample_employee", OF c] f
  show ?thesis by (simp add: init_has_facility_access sample_employee_def)
qed

theorem denied_turn_persists_two_messages_witness:
  "\<not> fst (check_query_permission ascii_lower sample_hash
            (security (sample_assistant answering_llm (Some empty_store)))
            ''tell me about the underground facility'') \<and>
   \<not> (\<exists>fault\<in>set (take 2 (sqlite_faults empty_world)). fault) \<and>
   get_response ascii_lower sample_hash (sample_assistant answering_llm (Some empty_store))
     ''tell me about the underground facility'' empty_world =
     (underground_facility,
      \<lparr> message_history =
          [(''session-1'', ''human'', ''tell me about the underground facility''),
           (''session-1'', ''ai'', underground_facility)],
        sqlite_faults = [], calls = [] \<rparr>)"
proof -
  let ?a = "sample_assistant answering_llm (Some empty_store)"
  let ?q = "''tell me about the underground facility''"
  have c: "check_query_permission ascii_lower sample_hash (security ?a) ?q
             = (False, underground_facility)"
    by (simp add: sample_assistant_fields sample_facility_denial)
  then have d: "\<not> fst (check_query_permission ascii_lower sample_hash (security ?a) ?q)"
    by simp
  have s: "\<forall>fault\<in>set (take 2 (sqlite_faults empty_world)). \<not> fault"
    by (simp add: empty_world_def)
  have e: "sqlite_faults (snd (get_response ascii_lower sample_hash ?a ?q empty_world)) = []"
    by (simp add: denied_turn [OF c] add_message_def sqlite_op_def empty_world_def)
  from denied_turn_persists_two_messages [OF d, of empty_world] c e d s
  show ?thesis
    by (simp add: prod_eq_iff sample_assistant_fields empty_world_def add_message_def sqlite_op_def)
qed

text \<open>When the database raises on both writes, the denial is still returned and the table is
  left as it was: persistence is best effort.\<close>

lemma denied_turn_store_fault:
  assumes "check_query_permission lower hash (security self) user_input = (False, denial_message)"
    and "sqlite_faults w = True # True # faults"
  shows "get_response lower hash self user_input w = (denial_message, w\<lparr>sqlite_faults := faults\<rparr>)"
  using assms by (simp add: denied_turn add_message_fault)


section \<open>A turn in which an exception is raised\<close>

text \<open>An exception leaves the \<open>try\<close> block exactly when the query is allowed and the
  prompt formatting or the generator raises; the document store cannot cause it, since
  \<open>_retrieve_policy_information\<close> catches what the store raises.\<close>

lemma try_raises_iff:
  "fst (get_response_try lower hash self user_input w) = Inl e \<longleftrightarrow>
     fst (check_query_permission lower hash (security self) user_input) \<and>
     (let retrieved = fst (retrieve_policy_information self user_input w);
          employee_info = format_employee_information self
      in system_prompt self employee_info retrieved = Inl e \<or>
         (\<exists>formatted. system_prompt self employee_info retrieved = Inr formatted \<and>
            llm self
              (formatted @ ''\<newline>'' @ get_dynamic_system_instruction (security self))
              (fst (get_langchain_messages (chat_history self)
                      ((snd (retrieve_policy_information self user_input w))
                         \<lparr>calls := calls (snd (retrieve_policy_information self user_input w))
                            @ [SystemPromptFormat employee_info retrieved]\<rparr>)))
              user_input (langsmith_config self) = Inl e))"
  by (auto simp: get_response_try_def Let_def split: prod.splits sum.splits)

lemma try_raises_keeps_history:
  assumes "fst (get_response_try lower hash self user_input w) = Inl e"
  shows "message_history (snd (get_response_try lower hash self user_input w)) = message_history w"
proof -
  obtain retrieved w1 where r: "retrieve_policy_information self user_input w = (retrieved, w1)"
    by (cases "retrieve_policy_information self user_input w")
  from retrieve_keeps_history(1) [of self user_input w] r
  have h1: "message_history w1 = message_history w" by simp
  define w2 where
    "w2 = w1\<lparr>calls := calls w1 @ [SystemPromptFormat (format_employee_information self) retrieved]\<rparr>"
  have h2: "message_history w2 = message_history w" by (simp add: w2_def h1)
  obtain history w3 where g: "get_langchain_messages (chat_history self) w2 = (history, w3)"
    by (cases "get_langchain_messages (chat_history self) w2")
  from get_langchain_messages_keeps(1) [of "chat_history self" w2] g
  have h3: "message_history w3 = message_history w" by (simp add: w2_def h1)
  from assms show ?thesis
    by (auto simp: get_response_try_def Let_def r g h1 h2 h3 w2_def [symmetric]
          split: prod.splits sum.splits if_splits)
qed

lemma exception_path:
  assumes "fst (get_response_try lower hash self user_input w) = Inl e"
  shows "fst (get_response lower hash self user_input w) = strip error_response"
    and "message_history (snd (get_response lower hash self user_input w)) = message_history w"
proof -
  obtain w' where t: "get_response_try lower hash self user_input w = (Inl e, w')"
    using assms by (cases "get_response_try lower hash self user_input w") simp
  then show "fst (get_response lower hash self user_input w) = strip error_response"
    by (simp add: get_response_def)
  from try_raises_keeps_history [OF assms] t
  show "message_history (snd (get_response lower hash self user_input w)) = message_history w"
    by (simp add: get_response_def)
qed

lemma sample_allowed:
  "check_query_permission ascii_lower sample_hash (SecurityGuardrails_init sample_employee)
     ''what are the office hours'' = (True, [])"
proof -
  have c: "\<forall>c\<in>set CONFIDENTIAL_KEYWORDS. \<not> str_in c (ascii_lower ''what are the office hours'')"
    by code_simp
  have f: "\<not> (\<exists>f\<in>set FACILITY_KEYWORDS. str_in f (ascii_lower ''what are the office hours''))"
    by code_simp
  have r: "find (\<lambda>k. str_in k (ascii_lower ''what are the office hours''))
             (restricted_keywords (self_permissions (SecurityGuardrails_init sample_employee))) = None"
    by code_simp
  from no_confidential [of ascii_lower "''what are the office hours''" sample_hash
         "SecurityGuardrails_init sample_employee", OF c] f r
  show ?thesis by simp
qed

lemma sample_generator_raises:
  "fst (get_response_try ascii_lower sample_hash (sample_assistant failing_llm (Some empty_store))
          ''what are the office hours'' empty_world) = Inl (Exception ''rate limit exceeded'')"
  by (simp add: try_raises_iff sample_assistant_fields sample_allowed sample_prompt_def
        failing_llm_def Let_def)

text \<open>
  Claim C3, as stated, fails in its last part: when the generator raises, the fixed
  response is returned but nothing is written to the history, although the database
  accepts every write.
\<close>

theorem generator_failure_drops_query:
  "fst (get_response ascii_lower sample_hash (sample_assistant failing_llm (Some empty_store))
          ''what are the office hours'' empty_world) = strip error_response \<and>
   sqlite_faults empty_world = [] \<and>
   message_history
     (snd (get_response ascii_lower sample_hash (sample_assistant failing_llm (Some empty_store))
             ''what are the office hours'' empty_world)) = []"
  using exception_path [OF sample_generator_raises]
  by (simp add: empty_world_def)

text \<open>
  Claim C3, amended. If an exception leaves the \<open>try\<close> block of \<open>get_response\<close> (raised by
  the prompt formatting or by the generator), then \<open>get_response\<close> returns the fixed
  response \<open>error_response.strip()\<close> instead of raising, and the message history is left
  as it was before the turn.
\<close>

theorem exception_gives_fixed_response:
  assumes "fst (get_response_try lower hash self user_input w) = Inl e"
  shows "fst (get_response lower hash self user_input w) = strip error_response \<and>
         message_history (snd (get_response lower hash self user_input w)) = message_history w"
  using exception_path [OF assms] by simp

theorem exception_gives_fixed_response_witness:
  "fst (get_response_try ascii_lower sample_hash (sample_assistant failing_llm None)
          ''what are the office hours'' empty_world) = Inl (Exception ''rate limit exceeded'') \<and>
   fst (get_response ascii_lower sample_hash (sample_assistant failing_llm None)
          ''what are the office hours'' empty_world) = strip error_response \<and>
   message_history
     (snd (get_response ascii_lower sample_hash (sample_assistant failing_llm None)
             ''what are the office hours'' empty_world)) = message_history empty_world"
proof -
  have r: "fst (get_response_try ascii_lower sample_hash (sample_assistant failing_llm None)
          ''what are the office hours'' empty_world) = Inl (Exception ''rate limit exceeded'')"
    by (simp add: try_raises_iff sample_assistant_fields sample_allowed sample_prompt_def
          failing_llm_def Let_def)
  from exception_gives_fixed_response [OF r] r show ?thesis by simp
qed

lemma error_response_envelope:
  "take 22 (strip error_response) = ''**TRANSMISSION START**''"
  "take 20 (rev (strip error_response)) = rev ''**TRANSMISSION END**''"
  by code_simp+


section \<open>The employee generator\<close>

lemma random_choice_member: "random_choice xs r = Some x \<Longrightarrow> x \<in> set xs"
  by (auto simp: random_choice_def split: if_splits)

lemma random_choice_total: "xs \<noteq> [] \<Longrightarrow> \<exists>x. random_choice xs r = Some x"
  by (simp add: random_choice_def)

lemma underground_only_at_hq:
  "(\<exists>ld. map_of LOCATION_PROTOCOLS loc = Some ld \<and> has_underground_facility ld)
     \<longleftrightarrow> loc = ''Raccoon City HQ''"
  by (auto simp: LOCATION_PROTOCOLS_def split: if_splits)

lemma location_lookup:
  "map_of LOCATION_PROTOCOLS loc = None \<Longrightarrow> loc \<noteq> ''Raccoon City HQ''"
  "map_of LOCATION_PROTOCOLS loc = Some ld \<Longrightarrow> has_underground_facility ld = (loc = ''Raccoon City HQ'')"
  by (auto simp: LOCATION_PROTOCOLS_def split: if_splits)

lemma generate_employee_flag:
  assumes "generate_employee d = Some e"
  shows "has_facility_access e =
           Some (location e = Some ''Raccoon City HQ'' \<and> (\<exists>l. clearance_level e = Some l \<and> 4 \<le> l))"
  using assms
  by (auto simp: generate_employee_def Let_def location_lookup split: option.splits)

lemma collect_member: "collect xs = Some ys \<Longrightarrow> y \<in> set ys \<Longrightarrow> Some y \<in> set xs"
  by (induction xs arbitrary: ys rule: collect.induct) (auto split: option.splits)

lemma collect_total: "(\<forall>x\<in>set xs. x \<noteq> None) \<Longrightarrow> \<exists>ys. collect xs = Some ys \<and> length ys = length xs"
  by (induction xs rule: collect.induct) auto

lemma roles_have_locations:
  "map_of ROLE_DEPARTMENT_MAPPING pos = Some role_data \<Longrightarrow> role_allowed_locations role_data \<noteq> []"
  by (auto simp: ROLE_DEPARTMENT_MAPPING_def split: if_splits)

lemma generate_employee_total: "\<exists>e. generate_employee d = Some e"
proof -
  have "map fst ROLE_DEPARTMENT_MAPPING \<noteq> []"
    by (simp add: ROLE_DEPARTMENT_MAPPING_def)
  from random_choice_total [OF this] obtain pos
    where p: "random_choice (map fst ROLE_DEPARTMENT_MAPPING) (position_draw d) = Some pos"
    by blast
  from random_choice_member [OF p] obtain role_data
    where m: "map_of ROLE_DEPARTMENT_MAPPING pos = Some role_data"
    by (metis map_of_eq_None_iff not_Some_eq set_map)
  from random_choice_total [OF roles_have_locations [OF m]] obtain loc
    where l: "random_choice (role_allowed_locations role_data) (location_draw d) = Some loc"
    by blast
  show ?thesis
    by (simp add: generate_employee_def p m l Let_def)
qed

lemma generate_employee_data_total:
  "\<exists>es. generate_employee_data n ds = Some es \<and> length es = nat n"
proof -
  have "\<forall>x\<in>set (map (\<lambda>i. generate_employee (ds i)) [0..<nat n]). x \<noteq> None"
    using generate_employee_total by auto
  from collect_total [OF this] show ?thesis
    by (simp add: generate_employee_data_def)
qed

text \<open>
  Claim C10. Every employee produced by \<open>generate_employee_data\<close> has the key
  \<open>has_facility_access\<close>, and its value is true exactly when the location is
  ``Raccoon City HQ'' and the clearance level is at least 4; that location is the only one
  of \<open>LOCATION_PROTOCOLS\<close> with an underground facility.
\<close>

theorem facility_access_flag:
  assumes "generate_employee_data n ds = Some es" and "e \<in> set es"
  shows "has_facility_access e =
           Some (location e = Some ''Raccoon City HQ'' \<and> (\<exists>l. clearance_level e = Some l \<and> 4 \<le> l)) \<and>
         (\<forall>loc. (\<exists>ld. map_of LOCATION_PROTOCOLS loc = Some ld \<and> has_underground_facility ld)
                  \<longleftrightarrow> loc = ''Raccoon City HQ'')"
proof -
  from collect_member [OF assms [unfolded generate_employee_data_def]]
  obtain i where "generate_employee (ds i) = Some e" by auto
  from generate_employee_flag [OF this] underground_only_at_hq show ?thesis by blast
qed

lemma sample_generated: "generate_employee sample_draws = Some sample_generated_employee"
  by (simp add: generate_employee_def sample_draws_def random_choice_def
        ROLE_DEPARTMENT_MAPPING_def LOCATION_PROTOCOLS_def sample_generated_employee_def)

theorem facility_access_flag_witness:
  "generate_employee_data 1 (\<lambda>i. sample_draws) = Some [sample_generated_employee] \<and>
   sample_generated_employee \<in> set [sample_generated_employee] \<and>
   has_facility_access sample_generated_employee =
     Some (location sample_generated_employee = Some ''Raccoon City HQ'' \<and>
           (\<exists>l. clearance_level sample_generated_employee = Some l \<and> 4 \<le> l))"
proof -
  have g: "generate_employee_data 1 (\<lambda>i. sample_draws) = Some [sample_generated_employee]"
    by (simp add: generate_employee_data_def sample_generated)
  have m: "sample_generated_employee \<in> set [sample_generated_employee]" by simp
  from facility_access_flag [OF g m] g m show ?thesis by blast
qed

end
